theory Spec2Isabelle
  imports Main
begin

section \<open>Python values\<close>

text \<open>
  The values that travel through the server: what a tool receives from its caller, what it
  puts into query parameters and JSON bodies, and what \<^verbatim>\<open>response.json()\<close> hands back.
  A Python \<^verbatim>\<open>dict\<close> keeps its keys in insertion order, so it is an association list
  with distinct keys. Floating-point numbers are left out: no path of the source looks
  inside one.
\<close>

datatype pyval =
    PNone
  | PBool bool
  | PInt int
  | PStr string
  | PList "pyval list"
  | PDict "(string \<times> pyval) list"

type_synonym dict = "(string \<times> pyval) list"

text \<open>Python's truth value of an object, as \<^verbatim>\<open>if x:\<close> tests it.\<close>

fun truthy :: "pyval \<Rightarrow> bool" where
  "truthy PNone = False"
| "truthy (PBool b) = b"
| "truthy (PInt i) = (i \<noteq> 0)"
| "truthy (PStr s) = (s \<noteq> [])"
| "truthy (PList xs) = (xs \<noteq> [])"
| "truthy (PDict d) = (d \<noteq> [])"

text \<open>\<^verbatim>\<open>d[k] = v\<close>: an existing key keeps its place, a new key goes to the end.\<close>

fun setitem :: "dict \<Rightarrow> string \<Rightarrow> pyval \<Rightarrow> dict" where
  "setitem [] k v = [(k, v)]"
| "setitem ((k', v') # d) k v = (if k' = k then (k, v) # d else (k', v') # setitem d k v)"

subsection \<open>Integers as text\<close>

text \<open>\<^verbatim>\<open>str(n)\<close> of an integer, as an f-string writes it: decimal, a minus sign when negative.\<close>

definition digit_char :: "nat \<Rightarrow> char" where
  "digit_char n = ''0123456789'' ! (n mod 10)"

function str_nat :: "nat \<Rightarrow> string" where
  "str_nat n = (if n < 10 then [digit_char n] else str_nat (n div 10) @ [digit_char n])"
  by pat_completeness auto
termination
  by (relation "measure id") auto

declare str_nat.simps [simp del]

definition str_int :: "int \<Rightarrow> string" where
  "str_int i = (if i < 0 then CHR ''-'' # str_nat (nat (- i)) else str_nat (nat i))"

text \<open>
  A string is a list of code points below 256. \<^verbatim>\<open>int(s)\<close> on a string: blanks are
  skipped (tab to carriage return, space, and the two blanks 0x85 and 0xA0 above ASCII),
  one sign is allowed, then comes a run of decimal digits in which single underscores may
  separate digits; more than 4300 digits are refused (CPython's default limit, checked
  before anything after the run is looked at); blanks may follow, and nothing else.
  Every refusal is a \<^verbatim>\<open>ValueError\<close>.
\<close>

definition is_space :: "char \<Rightarrow> bool" where
  "is_space c =
     (let n = (of_char c :: nat) in (9 \<le> n \<and> n \<le> 13) \<or> n = 32 \<or> n = 133 \<or> n = 160)"

definition is_digit :: "char \<Rightarrow> bool" where
  "is_digit c = (let n = (of_char c :: nat) in 48 \<le> n \<and> n \<le> 57)"

definition in_numeral :: "char \<Rightarrow> bool" where
  "in_numeral c = (is_digit c \<or> c = CHR ''_'')"

text \<open>Digits with single underscores between them; the flag says a digit came just before.\<close>

fun digits_ok :: "bool \<Rightarrow> string \<Rightarrow> bool" where
  "digits_ok prev [] = prev"
| "digits_ok prev (c # cs) =
     (if is_digit c then digits_ok True cs
      else if c = CHR ''_'' \<and> prev then digits_ok False cs
      else False)"

fun digits_val :: "int \<Rightarrow> string \<Rightarrow> int" where
  "digits_val acc [] = acc"
| "digits_val acc (c # cs) =
     (if is_digit c then digits_val (10 * acc + (int (of_char c) - 48)) cs
      else digits_val acc cs)"

text \<open>
  The texts of the \<^verbatim>\<open>ValueError\<close>. Python quotes the offending string with \<^verbatim>\<open>repr\<close>
  and keeps the first 200 characters of that. \<^verbatim>\<open>repr\<close> uses single quotes unless the
  string holds a single quote and no double quote; it escapes backslash, the quote in
  use, newline, carriage return and tab by a backslash and a letter, and every other code
  point that does not print (below 0x20, from 0x7F to 0xA0, and 0xAD) as \<^verbatim>\<open>\xNN\<close>.
\<close>

definition hex_digit :: "nat \<Rightarrow> char" where
  "hex_digit n = ''0123456789abcdef'' ! (n mod 16)"

definition printable :: "char \<Rightarrow> bool" where
  "printable c =
     (let n = (of_char c :: nat) in \<not> (n < 32 \<or> (127 \<le> n \<and> n \<le> 160) \<or> n = 173))"

fun repr_chars :: "char \<Rightarrow> string \<Rightarrow> string" where
  "repr_chars q [] = []"
| "repr_chars q (c # cs) =
     (if c = CHR 0x5C then [CHR 0x5C, CHR 0x5C]
      else if c = q then [CHR 0x5C, q]
      else if c = CHR 0x0A then [CHR 0x5C, CHR ''n'']
      else if c = CHR 0x0D then [CHR 0x5C, CHR ''r'']
      else if c = CHR 0x09 then [CHR 0x5C, CHR ''t'']
      else if printable c then [c]
      else [CHR 0x5C, CHR ''x'', hex_digit (of_char c div 16), hex_digit (of_char c)])
     @ repr_chars q cs"

definition py_repr :: "string \<Rightarrow> string" where
  "py_repr s =
     (let q = (if CHR 0x27 \<in> set s \<and> CHR 0x22 \<notin> set s then CHR 0x22 else CHR 0x27)
      in q # repr_chars q s @ [q])"

definition invalid_literal :: "string \<Rightarrow> string" where
  "invalid_literal s = ''invalid literal for int() with base 10: '' @ take 200 (py_repr s)"

definition MAX_STR_DIGITS :: nat where
  "MAX_STR_DIGITS = 4300"

definition too_many_digits :: "nat \<Rightarrow> string" where
  "too_many_digits n =
     ''Exceeds the limit (4300 digits) for integer string conversion: value has ''
       @ str_nat n @ '' digits; use sys.set_int_max_str_digits() to increase the limit''"

definition int_of_str :: "string \<Rightarrow> string + int" where
  "int_of_str s =
     (let t = dropWhile is_space s;
          neg = (case t of [] \<Rightarrow> False | c # _ \<Rightarrow> c = CHR ''-'');
          body = (case t of [] \<Rightarrow> []
                  | c # r \<Rightarrow> if c = CHR ''-'' \<or> c = CHR ''+'' then r else t);
          numeral = takeWhile in_numeral body;
          rest = dropWhile in_numeral body
      in if \<not> digits_ok False numeral then Inl (invalid_literal s)
         else if MAX_STR_DIGITS < length (filter is_digit numeral)
           then Inl (too_many_digits (length (filter is_digit numeral)))
         else if dropWhile is_space rest \<noteq> [] then Inl (invalid_literal s)
         else Inr (if neg then - digits_val 0 numeral else digits_val 0 numeral))"

section \<open>The request dispatcher\<close>

subsection \<open>What the HTTP library hands back\<close>

text \<open>
  The fields of an \<^verbatim>\<open>httpx.Response\<close> that the source reads. \<open>headers\<close> is the lookup
  \<^verbatim>\<open>response.headers.get\<close>, \<open>resp_text\<close> is \<^verbatim>\<open>response.text\<close>, and \<open>resp_json\<close> is
  the outcome of \<^verbatim>\<open>response.json()\<close>: the parsed value, or the message of the
  exception the parser raises on a body that is not JSON.
\<close>

record response =
  status_code :: int
  headers :: "string \<Rightarrow> string option"
  resp_text :: string
  resp_json :: "string + pyval"

text \<open>
  The exceptions, by the \<^verbatim>\<open>except\<close> clause that receives them. \<open>OtherException\<close> stands
  for every other subclass of \<^verbatim>\<open>Exception\<close> and carries \<^verbatim>\<open>str(e)\<close>.
  \<open>BaseExceptionOnly\<close> stands for an exception outside \<^verbatim>\<open>Exception\<close>, which no clause
  of the source receives: \<^verbatim>\<open>asyncio.CancelledError\<close> when the host cancels the task while it
  awaits, \<^verbatim>\<open>KeyboardInterrupt\<close>, \<^verbatim>\<open>SystemExit\<close>. It carries the name of its class.
\<close>

datatype py_exception =
    HTTPStatusError response
  | RequestError string
  | OtherException string
  | BaseExceptionOnly string

text \<open>
  What the two awaits of one attempt meet. \<open>Response r\<close>: \<^verbatim>\<open>client.request\<close> returns
  \<open>r\<close>, and the wait that may follow runs to its end. \<open>Raises e\<close>: \<^verbatim>\<open>client.request\<close>
  raises \<open>e\<close>. \<open>Interrupted r e\<close>: \<^verbatim>\<open>client.request\<close> returns \<open>r\<close>, and if the code then
  waits, \<open>e\<close> is raised into the wait before it ends.
\<close>

datatype http_outcome =
    Response response
  | Raises py_exception
  | Interrupted response py_exception

text \<open>The arguments of \<^verbatim>\<open>make_request\<close>, and the call it places with \<^verbatim>\<open>client.request\<close>.\<close>

record request =
  "method" :: string
  endpoint :: string
  params :: "dict option"
  json_data :: "dict option"

record http_call =
  call_method :: string
  call_url :: string
  call_headers :: "(string \<times> string) list"
  call_params :: "dict option"
  call_json :: "dict option"
  call_timeout :: nat

text \<open>What a logical call does to the outside world, in order.\<close>

datatype event =
    Sent http_call
  | Slept int

definition QASE_API_BASE_URL :: string where
  "QASE_API_BASE_URL = ''https://api.qase.io/v1''"

definition MAX_RETRIES :: int where
  "MAX_RETRIES = 3"

definition RETRY_DELAY :: int where
  "RETRY_DELAY = 60"

definition Failure :: "string \<Rightarrow> pyval" where
  "Failure msg = PDict [(''error'', PStr msg)]"

definition http_call_of :: "string \<Rightarrow> request \<Rightarrow> http_call" where
  "http_call_of token req =
     \<lparr>call_method = method req,
      call_url = QASE_API_BASE_URL @ endpoint req,
      call_headers = [(''Token'', token), (''Content-Type'', ''application/json'')],
      call_params = params req,
      call_json = json_data req,
      call_timeout = 30\<rparr>"

subsection \<open>Library calls made on the response\<close>

text \<open>\<^verbatim>\<open>headers.get(name, default)\<close>: the header's text, or the default as it was given.\<close>

definition headers_get :: "(string \<Rightarrow> string option) \<Rightarrow> string \<Rightarrow> pyval \<Rightarrow> pyval" where
  "headers_get h name dflt = (case h name of None \<Rightarrow> dflt | Some s \<Rightarrow> PStr s)"

text \<open>\<^verbatim>\<open>int(x)\<close>: an integer is returned as it is, a string is read, a value of no number raises.\<close>

definition int_type_error :: "string \<Rightarrow> string" where
  "int_type_error ty =
     ''int() argument must be a string, a bytes-like object or a real number, not ''
       @ [CHR 0x27] @ ty @ [CHR 0x27]"

fun py_int :: "pyval \<Rightarrow> py_exception + int" where
  "py_int (PInt i) = Inr i"
| "py_int (PBool b) = Inr (if b then 1 else 0)"
| "py_int (PStr s) = (case int_of_str s of Inl m \<Rightarrow> Inl (OtherException m) | Inr i \<Rightarrow> Inr i)"
| "py_int PNone = Inl (OtherException (int_type_error ''NoneType''))"
| "py_int (PList xs) = Inl (OtherException (int_type_error ''list''))"
| "py_int (PDict d) = Inl (OtherException (int_type_error ''dict''))"

text \<open>\<^verbatim>\<open>raise_for_status()\<close> raises for every status that is not a success (200 to 299).\<close>

definition raise_for_status :: "response \<Rightarrow> py_exception + unit" where
  "raise_for_status r =
     (if 200 \<le> status_code r \<and> status_code r \<le> 299 then Inr () else Inl (HTTPStatusError r))"

definition response_json :: "response \<Rightarrow> py_exception + pyval" where
  "response_json r = (case resp_json r of Inl m \<Rightarrow> Inl (OtherException m) | Inr v \<Rightarrow> Inr v)"

subsection \<open>The waits\<close>

text \<open>
  \<^verbatim>\<open>await asyncio.sleep(delay)\<close> with an integer delay. The event loop adds the delay to
  its clock, a float, and Python refuses to turn an integer of \<open>2^1024 - 2^970\<close> or more
  into a float: \<^verbatim>\<open>OverflowError\<close>, raised before any waiting. Otherwise the wait runs
  to its end, unless something is raised into it first. A delay of zero or less gives
  way to the event loop once and returns.
\<close>

definition FLOAT_OVERFLOW :: int where
  "FLOAT_OVERFLOW = 2 ^ 1024 - 2 ^ 970"

definition asyncio_sleep :: "int \<Rightarrow> py_exception option \<Rightarrow> py_exception + unit" where
  "asyncio_sleep delay interrupt =
     (if FLOAT_OVERFLOW \<le> delay then Inl (OtherException ''int too large to convert to float'')
      else (case interrupt of Some e \<Rightarrow> Inl e | None \<Rightarrow> Inr ()))"

text \<open>The two sides of an attempt's outcome: what the call gives, what meets the wait.\<close>

fun client_request :: "http_outcome \<Rightarrow> py_exception + response" where
  "client_request (Response r) = Inr r"
| "client_request (Raises e) = Inl e"
| "client_request (Interrupted r e) = Inr r"

fun interrupt_of :: "http_outcome \<Rightarrow> py_exception option" where
  "interrupt_of (Response r) = None"
| "interrupt_of (Raises e) = None"
| "interrupt_of (Interrupted r e) = Some e"

subsection \<open>\<^verbatim>\<open>make_request\<close>\<close>

text \<open>
  The body of the \<^verbatim>\<open>try\<close> block for one attempt, from \<^verbatim>\<open>await client.request\<close> to the
  point where it returns, raises, or has slept and is about to call itself again.
\<close>

datatype step =
    Return pyval
  | Retry int

definition try_block :: "http_outcome \<Rightarrow> int \<Rightarrow> py_exception + step" where
  "try_block outcome retries =
     (case client_request outcome of
        Inl e \<Rightarrow> Inl e
      | Inr response \<Rightarrow>
          if status_code response = 429 then
            (if retries < MAX_RETRIES then
               (case py_int (headers_get (headers response) ''Retry-After'' (PInt RETRY_DELAY)) of
                  Inl e \<Rightarrow> Inl e
                | Inr retry_after \<Rightarrow>
                    (case asyncio_sleep retry_after (interrupt_of outcome) of
                       Inl e \<Rightarrow> Inl e
                     | Inr _ \<Rightarrow> Inr (Retry retry_after)))
             else Inr (Return (Failure ''Rate limit exceeded after maximum retries'')))
          else
            (case raise_for_status response of
               Inl e \<Rightarrow> Inl e
             | Inr _ \<Rightarrow>
                 (case response_json response of
                    Inl e \<Rightarrow> Inl e
                  | Inr v \<Rightarrow> Inr (Return v))))"

text \<open>
  The three \<^verbatim>\<open>except\<close> clauses, in the order of the source. Each returns a dictionary;
  an exception that none of them receives goes on to the caller (\<open>Inl\<close>).
\<close>

fun except_clauses :: "py_exception \<Rightarrow> py_exception + pyval" where
  "except_clauses (HTTPStatusError r) =
     Inr (Failure (''HTTP error: '' @ str_int (status_code r) @ '' - '' @ resp_text r))"
| "except_clauses (RequestError m) = Inr (Failure (''Request error: '' @ m))"
| "except_clauses (OtherException m) = Inr (Failure (''Unexpected error: '' @ m))"
| "except_clauses (BaseExceptionOnly m) = Inl (BaseExceptionOnly m)"

text \<open>
  The dispatcher. \<open>net n\<close> is what the attempt placed after \<open>n\<close> earlier ones of the same
  logical call meets, \<open>token\<close> is the value of \<^verbatim>\<open>QASE_API_TOKEN\<close> read at start-up. The
  result is what the caller gets, a returned value (\<open>Inr\<close>) or an exception that escapes
  (\<open>Inl\<close>), together with the calls placed and the waits completed, in order. A wait of
  zero or less is recorded like any other. The recursive call sits inside the \<^verbatim>\<open>try\<close>
  block, so what escapes from it meets the \<^verbatim>\<open>except\<close> clauses of the attempt around it.
  Creating the \<^verbatim>\<open>httpx.AsyncClient\<close> and leaving its \<^verbatim>\<open>async with\<close> block, both outside
  the \<^verbatim>\<open>try\<close>, are taken to complete.
\<close>

function make_request ::
  "(nat \<Rightarrow> http_outcome) \<Rightarrow> string \<Rightarrow> request \<Rightarrow> int
   \<Rightarrow> (py_exception + pyval) \<times> event list" where
  "make_request net token req retries =
     (if token = []
      then (Inr (Failure ''QASE_API_TOKEN environment variable is not set''), [])
      else
        (case try_block (net 0) retries of
           Inr (Retry retry_after) \<Rightarrow>
             (let (res, evs) = make_request (\<lambda>n. net (Suc n)) token req (retries + 1)
              in ((case res of Inl e \<Rightarrow> except_clauses e | Inr v \<Rightarrow> Inr v),
                  Sent (http_call_of token req) # Slept retry_after # evs))
         | Inr (Return v) \<Rightarrow> (Inr v, [Sent (http_call_of token req)])
         | Inl e \<Rightarrow> (except_clauses e, [Sent (http_call_of token req)])))"
  by pat_completeness auto
termination
  by (relation "measure (\<lambda>(net, token, req, retries). nat (MAX_RETRIES - retries))")
     (auto simp: try_block_def split: if_splits sum.splits)

declare make_request.simps [simp del]

subsection \<open>Networks for the worked runs\<close>

text \<open>
  Three behaviours of the network used in closed statements below. \<open>throttled_once\<close>
  answers 429 with \<^verbatim>\<open>Retry-After: 2\<close> and then 200 with a JSON body. \<open>date_after_first\<close>
  answers 429 every time, the first time with \<^verbatim>\<open>Retry-After: 2\<close> and from then on with
  the header in its HTTP-date form. \<open>cancelled\<close> has the host cancel the task while the
  call is awaited, \<open>cancelled_in_wait\<close> while the wait after a 429 is awaited.
\<close>

definition too_many_requests :: "string option \<Rightarrow> response" where
  "too_many_requests retry_after =
     \<lparr>status_code = 429,
      headers = (case retry_after of None \<Rightarrow> Map.empty | Some s \<Rightarrow> [''Retry-After'' \<mapsto> s]),
      resp_text = ''Too Many Requests'',
      resp_json = Inl ''Expecting value: line 1 column 1 (char 0)''\<rparr>"


definition date_after_first :: "nat \<Rightarrow> http_outcome" where
  "date_after_first n =
     Response (too_many_requests
       (Some (if n = 0 then ''2'' else ''Fri, 31 Dec 1999 23:59:59 GMT'')))"



definition get_projects :: request where
  "get_projects = \<lparr>method = ''GET'', endpoint = ''/project'', params = None, json_data = None\<rparr>"

section \<open>The tools\<close>

text \<open>
  Every tool gathers its arguments into a dictionary of query parameters or a JSON body
  and ends with \<^verbatim>\<open>return await make_request(method, path, ...)\<close>, leaving \<^verbatim>\<open>retries\<close> at
  its default 0. A tool is modelled by the arguments of that call: its result is
  \<open>make_request net token\<close> applied to them and to 0.

  An argument declared \<^verbatim>\<open>T | None = None\<close> is an option. An argument with any other
  default is an option as well: \<open>None\<close> says that the caller left it out, and the
  default of the signature takes its place.
\<close>

definition or_default :: "'a \<Rightarrow> 'a option \<Rightarrow> 'a" where
  "or_default d x = (case x of None \<Rightarrow> d | Some v \<Rightarrow> v)"

definition opt :: "('a \<Rightarrow> pyval) \<Rightarrow> 'a option \<Rightarrow> pyval" where
  "opt f x = (case x of None \<Rightarrow> PNone | Some v \<Rightarrow> f v)"

definition strs :: "string list \<Rightarrow> pyval" where
  "strs xs = PList (map PStr xs)"

definition ints :: "int list \<Rightarrow> pyval" where
  "ints xs = PList (map PInt xs)"

definition dicts :: "dict list \<Rightarrow> pyval" where
  "dicts ds = PList (map PDict ds)"

definition str_dicts :: "(string \<times> string) list list \<Rightarrow> pyval" where
  "str_dicts ds = PList (map (\<lambda>d. PDict (map (\<lambda>(k, v). (k, PStr v)) d)) ds)"

text \<open>
  The two guarded assignments of the source, \<^verbatim>\<open>if x: d[k] = x\<close> and
  \<^verbatim>\<open>if x is not None: d[k] = x\<close>, and a dictionary literal followed by a run of them.
\<close>

definition if_truthy :: "string \<Rightarrow> pyval \<Rightarrow> dict \<Rightarrow> dict" where
  "if_truthy k x d = (if truthy x then setitem d k x else d)"

definition if_not_none :: "string \<Rightarrow> pyval \<Rightarrow> dict \<Rightarrow> dict" where
  "if_not_none k x d = (if x \<noteq> PNone then setitem d k x else d)"

fun run :: "dict \<Rightarrow> (dict \<Rightarrow> dict) list \<Rightarrow> dict" where
  "run d [] = d"
| "run d (stmt # stmts) = run (stmt d) stmts"

text \<open>
  The value that a request carries under a key, in its query parameters or else in its
  JSON body; \<open>None\<close> when the key is in neither.
\<close>

definition sent :: "request \<Rightarrow> string \<Rightarrow> pyval option" where
  "sent req k =
     (case (case params req of None \<Rightarrow> None | Some d \<Rightarrow> map_of d k) of
        Some v \<Rightarrow> Some v
      | None \<Rightarrow> (case json_data req of None \<Rightarrow> None | Some d \<Rightarrow> map_of d k))"

subsection \<open>Project tools\<close>

definition qase_list_projects ::
  "int option \<Rightarrow> int option \<Rightarrow> request" where
  "qase_list_projects limit offset =
     \<lparr>method = ''GET'',
      endpoint = ''/project'',
      params = Some ([(''limit'', PInt (or_default 100 limit)),
                      (''offset'', PInt (or_default 0 offset))]),
      json_data = None\<rparr>"

definition qase_get_project ::
  "string \<Rightarrow> request" where
  "qase_get_project project_code =
     \<lparr>method = ''GET'',
      endpoint = ''/project/'' @ project_code,
      params = None,
      json_data = None\<rparr>"

definition qase_create_project ::
  "string \<Rightarrow> string \<Rightarrow> string option \<Rightarrow> string option
   \<Rightarrow> request" where
  "qase_create_project title code description access =
     \<lparr>method = ''POST'',
      endpoint = ''/project'',
      params = None,
      json_data = Some ([(''title'', PStr title), (''code'', PStr code),
                         (''description'', PStr (or_default '''' description)),
                         (''access'', PStr (or_default ''none'' access))])\<rparr>"

subsection \<open>Test case tools\<close>

definition qase_list_test_cases ::
  "string \<Rightarrow> int option \<Rightarrow> int option \<Rightarrow> string option
   \<Rightarrow> string option \<Rightarrow> string option \<Rightarrow> string option
   \<Rightarrow> int option \<Rightarrow> string option \<Rightarrow> request" where
  "qase_list_test_cases project_code limit offset filters_priority filters_type
     filters_severity filters_automation filters_suite_id filters_search =
     \<lparr>method = ''GET'',
      endpoint = ''/case/'' @ project_code,
      params = Some (run [(''limit'', PInt (or_default 100 limit)),
                          (''offset'', PInt (or_default 0 offset))]
                       [if_truthy ''filters[priority]'' (opt PStr filters_priority),
                        if_truthy ''filters[type]'' (opt PStr filters_type),
                        if_truthy ''filters[severity]'' (opt PStr filters_severity),
                        if_truthy ''filters[automation]'' (opt PStr filters_automation),
                        if_truthy ''filters[suite_id]'' (opt PInt filters_suite_id),
                        if_truthy ''filters[search]'' (opt PStr filters_search)]),
      json_data = None\<rparr>"

definition qase_get_test_case ::
  "string \<Rightarrow> int \<Rightarrow> request" where
  "qase_get_test_case project_code case_id =
     \<lparr>method = ''GET'',
      endpoint = ''/case/'' @ project_code @ ''/'' @ str_int case_id,
      params = None,
      json_data = None\<rparr>"

definition qase_create_test_case ::
  "string \<Rightarrow> string \<Rightarrow> string option \<Rightarrow> string option
   \<Rightarrow> string option \<Rightarrow> int option \<Rightarrow> int option
   \<Rightarrow> int option \<Rightarrow> int option \<Rightarrow> string option
   \<Rightarrow> int option \<Rightarrow> int option \<Rightarrow> string list option
   \<Rightarrow> dict list option \<Rightarrow> dict list option \<Rightarrow> request" where
  "qase_create_test_case project_code title description preconditions postconditions
     severity priority type_id behavior automation suite_id milestone_id tags steps
     custom_fields =
     \<lparr>method = ''POST'',
      endpoint = ''/case/'' @ project_code,
      params = None,
      json_data = Some (run [(''title'', PStr title),
                             (''description'', PStr (or_default '''' description)),
                             (''preconditions'', PStr (or_default '''' preconditions)),
                             (''postconditions'', PStr (or_default '''' postconditions)),
                             (''severity'', PInt (or_default 4 severity)),
                             (''priority'', PInt (or_default 2 priority)),
                             (''type'', PInt (or_default 1 type_id)),
                             (''behavior'', PInt (or_default 2 behavior)),
                             (''automation'', PStr (or_default ''is-not-automated'' automation))]
                          [if_not_none ''suite_id'' (opt PInt suite_id),
                           if_not_none ''milestone_id'' (opt PInt milestone_id),
                           if_truthy ''tags'' (opt strs tags),
                           if_truthy ''steps'' (opt dicts steps),
                           if_truthy ''custom_fields'' (opt dicts custom_fields)])\<rparr>"

definition qase_create_bulk_test_cases ::
  "string \<Rightarrow> dict list \<Rightarrow> request" where
  "qase_create_bulk_test_cases project_code cases =
     \<lparr>method = ''POST'',
      endpoint = ''/case/'' @ project_code @ ''/bulk'',
      params = None,
      json_data = Some ([(''cases'', dicts cases)])\<rparr>"

definition qase_update_test_case ::
  "string \<Rightarrow> int \<Rightarrow> string option \<Rightarrow> string option
   \<Rightarrow> string option \<Rightarrow> string option \<Rightarrow> int option
   \<Rightarrow> int option \<Rightarrow> int option \<Rightarrow> int option
   \<Rightarrow> string option \<Rightarrow> int option \<Rightarrow> int option
   \<Rightarrow> string list option \<Rightarrow> dict list option
   \<Rightarrow> dict list option \<Rightarrow> request" where
  "qase_update_test_case project_code case_id title description preconditions
     postconditions severity priority type_id behavior automation suite_id milestone_id
     tags steps custom_fields =
     \<lparr>method = ''PATCH'',
      endpoint = ''/case/'' @ project_code @ ''/'' @ str_int case_id,
      params = None,
      json_data = Some (run []
                          [if_not_none ''title'' (opt PStr title),
                           if_not_none ''description'' (opt PStr description),
                           if_not_none ''preconditions'' (opt PStr preconditions),
                           if_not_none ''postconditions'' (opt PStr postconditions),
                           if_not_none ''severity'' (opt PInt severity),
                           if_not_none ''priority'' (opt PInt priority),
                           if_not_none ''type'' (opt PInt type_id),
                           if_not_none ''behavior'' (opt PInt behavior),
                           if_not_none ''automation'' (opt PStr automation),
                           if_not_none ''suite_id'' (opt PInt suite_id),
                           if_not_none ''milestone_id'' (opt PInt milestone_id),
                           if_not_none ''tags'' (opt strs tags),
                           if_not_none ''steps'' (opt dicts steps),
                           if_not_none ''custom_fields'' (opt dicts custom_fields)])\<rparr>"

definition qase_delete_test_case ::
  "string \<Rightarrow> int \<Rightarrow> request" where
  "qase_delete_test_case project_code case_id =
     \<lparr>method = ''DELETE'',
      endpoint = ''/case/'' @ project_code @ ''/'' @ str_int case_id,
      params = None,
      json_data = None\<rparr>"

subsection \<open>Test suite tools\<close>

definition qase_list_suites ::
  "string \<Rightarrow> int option \<Rightarrow> int option \<Rightarrow> string option
   \<Rightarrow> request" where
  "qase_list_suites project_code limit offset search =
     \<lparr>method = ''GET'',
      endpoint = ''/suite/'' @ project_code,
      params = Some (run [(''limit'', PInt (or_default 100 limit)),
                          (''offset'', PInt (or_default 0 offset))]
                       [if_truthy ''filters[search]'' (opt PStr search)]),
      json_data = None\<rparr>"

definition qase_get_suite ::
  "string \<Rightarrow> int \<Rightarrow> request" where
  "qase_get_suite project_code suite_id =
     \<lparr>method = ''GET'',
      endpoint = ''/suite/'' @ project_code @ ''/'' @ str_int suite_id,
      params = None,
      json_data = None\<rparr>"

definition qase_create_suite ::
  "string \<Rightarrow> string \<Rightarrow> string option \<Rightarrow> string option
   \<Rightarrow> int option \<Rightarrow> request" where
  "qase_create_suite project_code title description preconditions parent_id =
     \<lparr>method = ''POST'',
      endpoint = ''/suite/'' @ project_code,
      params = None,
      json_data = Some (run [(''title'', PStr title),
                             (''description'', PStr (or_default '''' description)),
                             (''preconditions'', PStr (or_default '''' preconditions))]
                          [if_not_none ''parent_id'' (opt PInt parent_id)])\<rparr>"

definition qase_update_suite ::
  "string \<Rightarrow> int \<Rightarrow> string option \<Rightarrow> string option
   \<Rightarrow> string option \<Rightarrow> int option \<Rightarrow> request" where
  "qase_update_suite project_code suite_id title description preconditions parent_id =
     \<lparr>method = ''PATCH'',
      endpoint = ''/suite/'' @ project_code @ ''/'' @ str_int suite_id,
      params = None,
      json_data = Some (run []
                          [if_not_none ''title'' (opt PStr title),
                           if_not_none ''description'' (opt PStr description),
                           if_not_none ''preconditions'' (opt PStr preconditions),
                           if_not_none ''parent_id'' (opt PInt parent_id)])\<rparr>"

definition qase_delete_suite ::
  "string \<Rightarrow> int \<Rightarrow> request" where
  "qase_delete_suite project_code suite_id =
     \<lparr>method = ''DELETE'',
      endpoint = ''/suite/'' @ project_code @ ''/'' @ str_int suite_id,
      params = None,
      json_data = None\<rparr>"

subsection \<open>Shared steps tools\<close>

definition qase_list_shared_steps ::
  "string \<Rightarrow> int option \<Rightarrow> int option \<Rightarrow> string option
   \<Rightarrow> request" where
  "qase_list_shared_steps project_code limit offset search =
     \<lparr>method = ''GET'',
      endpoint = ''/shared_step/'' @ project_code,
      params = Some (run [(''limit'', PInt (or_default 100 limit)),
                          (''offset'', PInt (or_default 0 offset))]
                       [if_truthy ''filters[search]'' (opt PStr search)]),
      json_data = None\<rparr>"

definition qase_get_shared_step ::
  "string \<Rightarrow> string \<Rightarrow> request" where
  "qase_get_shared_step project_code shared_step_hash =
     \<lparr>method = ''GET'',
      endpoint = ''/shared_step/'' @ project_code @ ''/'' @ shared_step_hash,
      params = None,
      json_data = None\<rparr>"

definition qase_create_shared_step ::
  "string \<Rightarrow> string \<Rightarrow> string \<Rightarrow> string option
   \<Rightarrow> string option \<Rightarrow> request" where
  "qase_create_shared_step project_code title action expected_result data =
     \<lparr>method = ''POST'',
      endpoint = ''/shared_step/'' @ project_code,
      params = None,
      json_data = Some ([(''title'', PStr title), (''action'', PStr action),
                         (''expected_result'', PStr (or_default '''' expected_result)),
                         (''data'', PStr (or_default '''' data))])\<rparr>"

definition qase_update_shared_step ::
  "string \<Rightarrow> string \<Rightarrow> string option \<Rightarrow> string option
   \<Rightarrow> string option \<Rightarrow> string option \<Rightarrow> request" where
  "qase_update_shared_step project_code shared_step_hash title action expected_result
     data =
     \<lparr>method = ''PATCH'',
      endpoint = ''/shared_step/'' @ project_code @ ''/'' @ shared_step_hash,
      params = None,
      json_data = Some (run []
                          [if_not_none ''title'' (opt PStr title),
                           if_not_none ''action'' (opt PStr action),
                           if_not_none ''expected_result'' (opt PStr expected_result),
                           if_not_none ''data'' (opt PStr data)])\<rparr>"

definition qase_delete_shared_step ::
  "string \<Rightarrow> string \<Rightarrow> request" where
  "qase_delete_shared_step project_code shared_step_hash =
     \<lparr>method = ''DELETE'',
      endpoint = ''/shared_step/'' @ project_code @ ''/'' @ shared_step_hash,
      params = None,
      json_data = None\<rparr>"

subsection \<open>Shared parameters tools\<close>

definition qase_list_shared_parameters ::
  "string \<Rightarrow> int option \<Rightarrow> int option \<Rightarrow> request" where
  "qase_list_shared_parameters project_code limit offset =
     \<lparr>method = ''GET'',
      endpoint = ''/shared_parameter/'' @ project_code,
      params = Some ([(''limit'', PInt (or_default 100 limit)),
                      (''offset'', PInt (or_default 0 offset))]),
      json_data = None\<rparr>"

definition qase_get_shared_parameter ::
  "string \<Rightarrow> int \<Rightarrow> request" where
  "qase_get_shared_parameter project_code parameter_id =
     \<lparr>method = ''GET'',
      endpoint = ''/shared_parameter/'' @ project_code @ ''/'' @ str_int parameter_id,
      params = None,
      json_data = None\<rparr>"

definition qase_create_shared_parameter ::
  "string \<Rightarrow> string \<Rightarrow> string list \<Rightarrow> request" where
  "qase_create_shared_parameter project_code title values =
     \<lparr>method = ''POST'',
      endpoint = ''/shared_parameter/'' @ project_code,
      params = None,
      json_data = Some ([(''title'', PStr title), (''values'', strs values)])\<rparr>"

definition qase_update_shared_parameter ::
  "string \<Rightarrow> int \<Rightarrow> string option \<Rightarrow> string list option
   \<Rightarrow> request" where
  "qase_update_shared_parameter project_code parameter_id title values =
     \<lparr>method = ''PATCH'',
      endpoint = ''/shared_parameter/'' @ project_code @ ''/'' @ str_int parameter_id,
      params = None,
      json_data = Some (run []
                          [if_not_none ''title'' (opt PStr title),
                           if_not_none ''values'' (opt strs values)])\<rparr>"

definition qase_delete_shared_parameter ::
  "string \<Rightarrow> int \<Rightarrow> request" where
  "qase_delete_shared_parameter project_code parameter_id =
     \<lparr>method = ''DELETE'',
      endpoint = ''/shared_parameter/'' @ project_code @ ''/'' @ str_int parameter_id,
      params = None,
      json_data = None\<rparr>"

subsection \<open>Custom fields tools\<close>

definition qase_list_custom_fields ::
  "string \<Rightarrow> int option \<Rightarrow> int option \<Rightarrow> request" where
  "qase_list_custom_fields project_code limit offset =
     \<lparr>method = ''GET'',
      endpoint = ''/custom_field/'' @ project_code,
      params = Some ([(''limit'', PInt (or_default 100 limit)),
                      (''offset'', PInt (or_default 0 offset))]),
      json_data = None\<rparr>"

definition qase_get_custom_field ::
  "string \<Rightarrow> int \<Rightarrow> request" where
  "qase_get_custom_field project_code field_id =
     \<lparr>method = ''GET'',
      endpoint = ''/custom_field/'' @ project_code @ ''/'' @ str_int field_id,
      params = None,
      json_data = None\<rparr>"

definition qase_create_custom_field ::
  "string \<Rightarrow> string \<Rightarrow> int \<Rightarrow> int
   \<Rightarrow> string option \<Rightarrow> string option \<Rightarrow> bool option
   \<Rightarrow> bool option \<Rightarrow> bool option
   \<Rightarrow> (string \<times> string) list list option \<Rightarrow> request" where
  "qase_create_custom_field project_code title entity field_type placeholder
     default_value is_filterable is_visible is_required value =
     \<lparr>method = ''POST'',
      endpoint = ''/custom_field/'' @ project_code,
      params = None,
      json_data = Some (run [(''title'', PStr title), (''entity'', PInt entity),
                             (''type'', PInt field_type),
                             (''placeholder'', PStr (or_default '''' placeholder)),
                             (''default_value'', PStr (or_default '''' default_value)),
                             (''is_filterable'', PBool (or_default False is_filterable)),
                             (''is_visible'', PBool (or_default True is_visible)),
                             (''is_required'', PBool (or_default False is_required))]
                          [if_not_none ''value'' (opt str_dicts value)])\<rparr>"

definition qase_update_custom_field ::
  "string \<Rightarrow> int \<Rightarrow> string option \<Rightarrow> string option
   \<Rightarrow> string option \<Rightarrow> bool option \<Rightarrow> bool option
   \<Rightarrow> bool option \<Rightarrow> (string \<times> string) list list option
   \<Rightarrow> request" where
  "qase_update_custom_field project_code field_id title placeholder default_value
     is_filterable is_visible is_required value =
     \<lparr>method = ''PATCH'',
      endpoint = ''/custom_field/'' @ project_code @ ''/'' @ str_int field_id,
      params = None,
      json_data = Some (run []
                          [if_not_none ''title'' (opt PStr title),
                           if_not_none ''placeholder'' (opt PStr placeholder),
                           if_not_none ''default_value'' (opt PStr default_value),
                           if_not_none ''is_filterable'' (opt PBool is_filterable),
                           if_not_none ''is_visible'' (opt PBool is_visible),
                           if_not_none ''is_required'' (opt PBool is_required),
                           if_not_none ''value'' (opt str_dicts value)])\<rparr>"

definition qase_delete_custom_field ::
  "string \<Rightarrow> int \<Rightarrow> request" where
  "qase_delete_custom_field project_code field_id =
     \<lparr>method = ''DELETE'',
      endpoint = ''/custom_field/'' @ project_code @ ''/'' @ str_int field_id,
      params = None,
      json_data = None\<rparr>"

subsection \<open>System fields tools\<close>

definition qase_get_system_fields ::
  "string \<Rightarrow> request" where
  "qase_get_system_fields project_code =
     \<lparr>method = ''GET'',
      endpoint = ''/system_field/'' @ project_code,
      params = None,
      json_data = None\<rparr>"

subsection \<open>Test plan tools\<close>

definition qase_list_test_plans ::
  "string \<Rightarrow> int option \<Rightarrow> int option \<Rightarrow> request" where
  "qase_list_test_plans project_code limit offset =
     \<lparr>method = ''GET'',
      endpoint = ''/plan/'' @ project_code,
      params = Some ([(''limit'', PInt (or_default 100 limit)),
                      (''offset'', PInt (or_default 0 offset))]),
      json_data = None\<rparr>"

definition qase_get_test_plan ::
  "string \<Rightarrow> int \<Rightarrow> request" where
  "qase_get_test_plan project_code plan_id =
     \<lparr>method = ''GET'',
      endpoint = ''/plan/'' @ project_code @ ''/'' @ str_int plan_id,
      params = None,
      json_data = None\<rparr>"

definition qase_create_test_plan ::
  "string \<Rightarrow> string \<Rightarrow> string option \<Rightarrow> int list option
   \<Rightarrow> request" where
  "qase_create_test_plan project_code title description cases =
     \<lparr>method = ''POST'',
      endpoint = ''/plan/'' @ project_code,
      params = None,
      json_data = Some (run [(''title'', PStr title),
                             (''description'', PStr (or_default '''' description))]
                          [if_truthy ''cases'' (opt ints cases)])\<rparr>"

definition qase_update_test_plan ::
  "string \<Rightarrow> int \<Rightarrow> string option \<Rightarrow> string option
   \<Rightarrow> int list option \<Rightarrow> request" where
  "qase_update_test_plan project_code plan_id title description cases =
     \<lparr>method = ''PATCH'',
      endpoint = ''/plan/'' @ project_code @ ''/'' @ str_int plan_id,
      params = None,
      json_data = Some (run []
                          [if_not_none ''title'' (opt PStr title),
                           if_not_none ''description'' (opt PStr description),
                           if_not_none ''cases'' (opt ints cases)])\<rparr>"

definition qase_delete_test_plan ::
  "string \<Rightarrow> int \<Rightarrow> request" where
  "qase_delete_test_plan project_code plan_id =
     \<lparr>method = ''DELETE'',
      endpoint = ''/plan/'' @ project_code @ ''/'' @ str_int plan_id,
      params = None,
      json_data = None\<rparr>"

subsection \<open>Test run tools\<close>

definition qase_list_test_runs ::
  "string \<Rightarrow> int option \<Rightarrow> int option \<Rightarrow> string option
   \<Rightarrow> request" where
  "qase_list_test_runs project_code limit offset include =
     \<lparr>method = ''GET'',
      endpoint = ''/run/'' @ project_code,
      params = Some (run [(''limit'', PInt (or_default 100 limit)),
                          (''offset'', PInt (or_default 0 offset))]
                       [if_truthy ''include'' (opt PStr include)]),
      json_data = None\<rparr>"

definition qase_get_test_run ::
  "string \<Rightarrow> int \<Rightarrow> string option \<Rightarrow> request" where
  "qase_get_test_run project_code run_id include =
     \<lparr>method = ''GET'',
      endpoint = ''/run/'' @ project_code @ ''/'' @ str_int run_id,
      params = Some (run []
                       [if_truthy ''include'' (opt PStr include)]),
      json_data = None\<rparr>"

definition qase_create_test_run ::
  "string \<Rightarrow> string \<Rightarrow> string option \<Rightarrow> int list option
   \<Rightarrow> int option \<Rightarrow> int option \<Rightarrow> int option
   \<Rightarrow> bool option \<Rightarrow> request" where
  "qase_create_test_run project_code title description cases plan_id environment_id
     milestone_id is_autotest =
     \<lparr>method = ''POST'',
      endpoint = ''/run/'' @ project_code,
      params = None,
      json_data = Some (run [(''title'', PStr title),
                             (''description'', PStr (or_default '''' description)),
                             (''is_autotest'', PBool (or_default False is_autotest))]
                          [if_truthy ''cases'' (opt ints cases),
                           if_not_none ''plan_id'' (opt PInt plan_id),
                           if_not_none ''environment_id'' (opt PInt environment_id),
                           if_not_none ''milestone_id'' (opt PInt milestone_id)])\<rparr>"

definition qase_complete_test_run ::
  "string \<Rightarrow> int \<Rightarrow> request" where
  "qase_complete_test_run project_code run_id =
     \<lparr>method = ''POST'',
      endpoint = ''/run/'' @ project_code @ ''/'' @ str_int run_id @ ''/complete'',
      params = None,
      json_data = None\<rparr>"

definition qase_delete_test_run ::
  "string \<Rightarrow> int \<Rightarrow> request" where
  "qase_delete_test_run project_code run_id =
     \<lparr>method = ''DELETE'',
      endpoint = ''/run/'' @ project_code @ ''/'' @ str_int run_id,
      params = None,
      json_data = None\<rparr>"

subsection \<open>Test result tools\<close>

definition qase_list_test_results ::
  "string \<Rightarrow> int \<Rightarrow> int option \<Rightarrow> int option
   \<Rightarrow> request" where
  "qase_list_test_results project_code run_id limit offset =
     \<lparr>method = ''GET'',
      endpoint = ''/result/'' @ project_code @ ''/'' @ str_int run_id,
      params = Some ([(''limit'', PInt (or_default 100 limit)),
                      (''offset'', PInt (or_default 0 offset))]),
      json_data = None\<rparr>"

definition qase_get_test_result ::
  "string \<Rightarrow> int \<Rightarrow> string \<Rightarrow> request" where
  "qase_get_test_result project_code run_id result_hash =
     \<lparr>method = ''GET'',
      endpoint = ''/result/'' @ project_code @ ''/'' @ str_int run_id @ ''/'' @ result_hash,
      params = None,
      json_data = None\<rparr>"

definition qase_create_test_result ::
  "string \<Rightarrow> int \<Rightarrow> int \<Rightarrow> string \<Rightarrow> int option
   \<Rightarrow> string option \<Rightarrow> bool option \<Rightarrow> int option
   \<Rightarrow> dict list option \<Rightarrow> string list option \<Rightarrow> request" where
  "qase_create_test_result project_code run_id case_id status time_ms comment defect
     member_id steps attachments =
     \<lparr>method = ''POST'',
      endpoint = ''/result/'' @ project_code @ ''/'' @ str_int run_id,
      params = None,
      json_data = Some (run [(''case_id'', PInt case_id), (''status'', PStr status),
                             (''comment'', PStr (or_default '''' comment)),
                             (''defect'', PBool (or_default False defect))]
                          [if_not_none ''time_ms'' (opt PInt time_ms),
                           if_not_none ''member_id'' (opt PInt member_id),
                           if_truthy ''steps'' (opt dicts steps),
                           if_truthy ''attachments'' (opt strs attachments)])\<rparr>"

definition qase_create_bulk_test_results ::
  "string \<Rightarrow> int \<Rightarrow> dict list \<Rightarrow> request" where
  "qase_create_bulk_test_results project_code run_id results =
     \<lparr>method = ''POST'',
      endpoint = ''/result/'' @ project_code @ ''/'' @ str_int run_id @ ''/bulk'',
      params = None,
      json_data = Some ([(''results'', dicts results)])\<rparr>"

subsection \<open>Defect tools\<close>

definition qase_list_defects ::
  "string \<Rightarrow> int option \<Rightarrow> int option \<Rightarrow> string option
   \<Rightarrow> request" where
  "qase_list_defects project_code limit offset filters_status =
     \<lparr>method = ''GET'',
      endpoint = ''/defect/'' @ project_code,
      params = Some (run [(''limit'', PInt (or_default 100 limit)),
                          (''offset'', PInt (or_default 0 offset))]
                       [if_truthy ''filters[status]'' (opt PStr filters_status)]),
      json_data = None\<rparr>"

definition qase_get_defect ::
  "string \<Rightarrow> int \<Rightarrow> request" where
  "qase_get_defect project_code defect_id =
     \<lparr>method = ''GET'',
      endpoint = ''/defect/'' @ project_code @ ''/'' @ str_int defect_id,
      params = None,
      json_data = None\<rparr>"

definition qase_create_defect ::
  "string \<Rightarrow> string \<Rightarrow> string \<Rightarrow> int option
   \<Rightarrow> int option \<Rightarrow> int option \<Rightarrow> string list option
   \<Rightarrow> request" where
  "qase_create_defect project_code title actual_result severity member_id milestone_id
     attachments =
     \<lparr>method = ''POST'',
      endpoint = ''/defect/'' @ project_code,
      params = None,
      json_data = Some (run [(''title'', PStr title), (''actual_result'', PStr actual_result),
                             (''severity'', PInt (or_default 4 severity))]
                          [if_not_none ''member_id'' (opt PInt member_id),
                           if_not_none ''milestone_id'' (opt PInt milestone_id),
                           if_truthy ''attachments'' (opt strs attachments)])\<rparr>"

definition qase_resolve_defect ::
  "string \<Rightarrow> int \<Rightarrow> request" where
  "qase_resolve_defect project_code defect_id =
     \<lparr>method = ''PATCH'',
      endpoint = ''/defect/'' @ project_code @ ''/'' @ str_int defect_id @ ''/resolve'',
      params = None,
      json_data = None\<rparr>"

definition qase_delete_defect ::
  "string \<Rightarrow> int \<Rightarrow> request" where
  "qase_delete_defect project_code defect_id =
     \<lparr>method = ''DELETE'',
      endpoint = ''/defect/'' @ project_code @ ''/'' @ str_int defect_id,
      params = None,
      json_data = None\<rparr>"

subsection \<open>Environment tools\<close>

definition qase_list_environments ::
  "string \<Rightarrow> int option \<Rightarrow> int option \<Rightarrow> request" where
  "qase_list_environments project_code limit offset =
     \<lparr>method = ''GET'',
      endpoint = ''/environment/'' @ project_code,
      params = Some ([(''limit'', PInt (or_default 100 limit)),
                      (''offset'', PInt (or_default 0 offset))]),
      json_data = None\<rparr>"

definition qase_get_environment ::
  "string \<Rightarrow> int \<Rightarrow> request" where
  "qase_get_environment project_code environment_id =
     \<lparr>method = ''GET'',
      endpoint = ''/environment/'' @ project_code @ ''/'' @ str_int environment_id,
      params = None,
      json_data = None\<rparr>"

definition qase_create_environment ::
  "string \<Rightarrow> string \<Rightarrow> string option \<Rightarrow> string option
   \<Rightarrow> string option \<Rightarrow> request" where
  "qase_create_environment project_code title description slug host =
     \<lparr>method = ''POST'',
      endpoint = ''/environment/'' @ project_code,
      params = None,
      json_data = Some ([(''title'', PStr title),
                         (''description'', PStr (or_default '''' description)),
                         (''slug'', PStr (or_default '''' slug)),
                         (''host'', PStr (or_default '''' host))])\<rparr>"

definition qase_delete_environment ::
  "string \<Rightarrow> int \<Rightarrow> request" where
  "qase_delete_environment project_code environment_id =
     \<lparr>method = ''DELETE'',
      endpoint = ''/environment/'' @ project_code @ ''/'' @ str_int environment_id,
      params = None,
      json_data = None\<rparr>"

subsection \<open>Milestone tools\<close>

definition qase_list_milestones ::
  "string \<Rightarrow> int option \<Rightarrow> int option \<Rightarrow> request" where
  "qase_list_milestones project_code limit offset =
     \<lparr>method = ''GET'',
      endpoint = ''/milestone/'' @ project_code,
      params = Some ([(''limit'', PInt (or_default 100 limit)),
                      (''offset'', PInt (or_default 0 offset))]),
      json_data = None\<rparr>"

definition qase_get_milestone ::
  "string \<Rightarrow> int \<Rightarrow> request" where
  "qase_get_milestone project_code milestone_id =
     \<lparr>method = ''GET'',
      endpoint = ''/milestone/'' @ project_code @ ''/'' @ str_int milestone_id,
      params = None,
      json_data = None\<rparr>"

definition qase_create_milestone ::
  "string \<Rightarrow> string \<Rightarrow> string option \<Rightarrow> string option
   \<Rightarrow> string option \<Rightarrow> request" where
  "qase_create_milestone project_code title description status due_date =
     \<lparr>method = ''POST'',
      endpoint = ''/milestone/'' @ project_code,
      params = None,
      json_data = Some (run [(''title'', PStr title),
                             (''description'', PStr (or_default '''' description)),
                             (''status'', PStr (or_default ''active'' status))]
                          [if_truthy ''due_date'' (opt PStr due_date)])\<rparr>"

definition qase_delete_milestone ::
  "string \<Rightarrow> int \<Rightarrow> request" where
  "qase_delete_milestone project_code milestone_id =
     \<lparr>method = ''DELETE'',
      endpoint = ''/milestone/'' @ project_code @ ''/'' @ str_int milestone_id,
      params = None,
      json_data = None\<rparr>"

subsection \<open>Author/user tools\<close>

definition qase_list_authors ::
  "string \<Rightarrow> int option \<Rightarrow> int option \<Rightarrow> request" where
  "qase_list_authors project_code limit offset =
     \<lparr>method = ''GET'',
      endpoint = ''/author/'' @ project_code,
      params = Some ([(''limit'', PInt (or_default 100 limit)),
                      (''offset'', PInt (or_default 0 offset))]),
      json_data = None\<rparr>"

definition qase_list_users ::
  "int option \<Rightarrow> int option \<Rightarrow> request" where
  "qase_list_users limit offset =
     \<lparr>method = ''GET'',
      endpoint = ''/user'',
      params = Some ([(''limit'', PInt (or_default 100 limit)),
                      (''offset'', PInt (or_default 0 offset))]),
      json_data = None\<rparr>"

definition qase_get_user ::
  "int \<Rightarrow> request" where
  "qase_get_user user_id =
     \<lparr>method = ''GET'',
      endpoint = ''/user/'' @ str_int user_id,
      params = None,
      json_data = None\<rparr>"

subsection \<open>Search tools\<close>

definition qase_search ::
  "string \<Rightarrow> string \<Rightarrow> int option \<Rightarrow> int option
   \<Rightarrow> request" where
  "qase_search project_code query limit offset =
     \<lparr>method = ''GET'',
      endpoint = ''/search/'' @ project_code,
      params = Some ([(''query'', PStr query), (''limit'', PInt (or_default 100 limit)),
                      (''offset'', PInt (or_default 0 offset))]),
      json_data = None\<rparr>"

subsection \<open>Attachment tools\<close>

definition qase_list_attachments ::
  "string \<Rightarrow> int option \<Rightarrow> int option \<Rightarrow> request" where
  "qase_list_attachments project_code limit offset =
     \<lparr>method = ''GET'',
      endpoint = ''/attachment/'' @ project_code,
      params = Some ([(''limit'', PInt (or_default 100 limit)),
                      (''offset'', PInt (or_default 0 offset))]),
      json_data = None\<rparr>"

definition qase_get_attachment ::
  "string \<Rightarrow> string \<Rightarrow> request" where
  "qase_get_attachment project_code attachment_hash =
     \<lparr>method = ''GET'',
      endpoint = ''/attachment/'' @ project_code @ ''/'' @ attachment_hash,
      params = None,
      json_data = None\<rparr>"

definition qase_delete_attachment ::
  "string \<Rightarrow> string \<Rightarrow> request" where
  "qase_delete_attachment project_code attachment_hash =
     \<lparr>method = ''DELETE'',
      endpoint = ''/attachment/'' @ project_code @ ''/'' @ attachment_hash,
      params = None,
      json_data = None\<rparr>"

section \<open>Properties of the dispatcher\<close>

subsection \<open>One attempt\<close>

lemma RETRY_DELAY_sleeps: "\<not> FLOAT_OVERFLOW \<le> RETRY_DELAY"
  by (simp add: FLOAT_OVERFLOW_def RETRY_DELAY_def)


lemma try_block_success:
  "200 \<le> status_code r \<Longrightarrow> status_code r \<le> 299 \<Longrightarrow>
   try_block (Response r) retries =
     (case resp_json r of Inl m \<Rightarrow> Inl (OtherException m) | Inr v \<Rightarrow> Inr (Return v))"
  by (simp add: try_block_def raise_for_status_def response_json_def split: sum.splits)

lemma try_block_status_error:
  "status_code r \<noteq> 429 \<Longrightarrow> \<not> (200 \<le> status_code r \<and> status_code r \<le> 299) \<Longrightarrow>
   try_block (Response r) retries = Inl (HTTPStatusError r)"
  by (auto simp: try_block_def raise_for_status_def)

lemma try_block_429_retry:
  "status_code r = 429 \<Longrightarrow> retries < MAX_RETRIES \<Longrightarrow>
   try_block (Response r) retries =
     (case headers r ''Retry-After'' of
        None \<Rightarrow> Inr (Retry RETRY_DELAY)
      | Some s \<Rightarrow>
          (case int_of_str s of
             Inl m \<Rightarrow> Inl (OtherException m)
           | Inr i \<Rightarrow>
               if FLOAT_OVERFLOW \<le> i
               then Inl (OtherException ''int too large to convert to float'')
               else Inr (Retry i)))"
  by (simp add: try_block_def headers_get_def asyncio_sleep_def RETRY_DELAY_sleeps
      split: option.splits sum.splits)

lemma try_block_429_exhausted:
  "status_code r = 429 \<Longrightarrow> \<not> retries < MAX_RETRIES \<Longrightarrow>
   try_block (Response r) retries =
     Inr (Return (Failure ''Rate limit exceeded after maximum retries''))"
  by (simp add: try_block_def)

lemma make_request_no_token:
  "make_request net [] req retries =
     (Inr (Failure ''QASE_API_TOKEN environment variable is not set''), [])"
  by (simp add: make_request.simps)

lemma make_request_return:
  "token \<noteq> [] \<Longrightarrow> try_block (net 0) retries = Inr (Return v) \<Longrightarrow>
   make_request net token req retries = (Inr v, [Sent (http_call_of token req)])"
  by (subst make_request.simps) simp

lemma make_request_raise:
  "token \<noteq> [] \<Longrightarrow> try_block (net 0) retries = Inl e \<Longrightarrow>
   make_request net token req retries = (except_clauses e, [Sent (http_call_of token req)])"
  by (subst make_request.simps) simp

text \<open>
  Only an exception outside \<^verbatim>\<open>Exception\<close> escapes, so the \<^verbatim>\<open>except\<close> clauses of the
  attempt around a recursive call let pass whatever that call returns or raises.
\<close>

lemma except_clauses_Inl: "except_clauses e = Inl e' \<Longrightarrow> e' = e \<and> (\<exists>m. e = BaseExceptionOnly m)"
  by (cases e) auto

lemma make_request_escape:
  "fst (make_request net token req retries) = Inl e \<Longrightarrow> \<exists>m. e = BaseExceptionOnly m"
proof (induction net token req retries arbitrary: e rule: make_request.induct)
  case (1 net token req retries)
  show ?case
  proof (cases "token = []")
    case True
    with "1.prems" show ?thesis by (simp add: make_request_no_token)
  next
    case tok: False
    show ?thesis
    proof (cases "try_block (net 0) retries")
      case (Inl e')
      with tok "1.prems" have "except_clauses e' = Inl e" by (simp add: make_request_raise)
      then show ?thesis by (auto dest: except_clauses_Inl)
    next
      case (Inr s)
      show ?thesis
      proof (cases s)
        case (Return v)
        with Inr tok "1.prems" show ?thesis by (simp add: make_request_return)
      next
        case (Retry d)
        with Inr have tb: "try_block (net 0) retries = Inr (Retry d)" by simp
        show ?thesis
        proof (cases "fst (make_request (\<lambda>n. net (Suc n)) token req (retries + 1))")
          case inner: (Inl e')
          from "1.IH"[OF tok tb refl inner] obtain m where m: "e' = BaseExceptionOnly m"
            by (elim exE)
          from "1.prems" tok tb inner m have "e = BaseExceptionOnly m"
            by (subst (asm) make_request.simps) (simp add: split_beta)
          then show ?thesis by (rule exI)
        next
          case inner: (Inr v)
          from "1.prems" tok tb inner show ?thesis
            by (subst (asm) make_request.simps) (simp add: split_beta)
        qed
      qed
    qed
  qed
qed

lemma make_request_passes:
  "(case fst (make_request net token req retries) of
      Inl e \<Rightarrow> except_clauses e
    | Inr v \<Rightarrow> Inr v) = fst (make_request net token req retries)"
proof (cases "fst (make_request net token req retries)")
  case (Inl e)
  from make_request_escape[OF Inl] obtain m where "e = BaseExceptionOnly m"
    by (elim exE)
  with Inl show ?thesis by simp
next
  case (Inr v)
  then show ?thesis by simp
qed

lemma make_request_retry:
  "token \<noteq> [] \<Longrightarrow> try_block (net 0) retries = Inr (Retry d) \<Longrightarrow>
   make_request net token req retries =
     (fst (make_request (\<lambda>n. net (Suc n)) token req (retries + 1)),
      Sent (http_call_of token req) # Slept d
        # snd (make_request (\<lambda>n. net (Suc n)) token req (retries + 1)))"
  by (subst make_request.simps) (simp add: split_beta make_request_passes)

subsection \<open>The shape of a logical call\<close>


text \<open>
  A run of the whole: the first call is answered 429 with \<^verbatim>\<open>Retry-After: 2\<close>, the second
  200 with a JSON body. The call waits 2 seconds and returns the body.
\<close>

lemma retry_then_success_example:
  "make_request
     (\<lambda>n. if n = 0
          then Response \<lparr>status_code = 429, headers = [''Retry-After'' \<mapsto> ''2''],
                          resp_text = ''Too Many Requests'', resp_json = Inl ''Expecting value''\<rparr>
          else Response \<lparr>status_code = 200, headers = Map.empty, resp_text = ''ok'',
                          resp_json = Inr (PDict [(''result'', PDict [(''id'', PInt 1)])])\<rparr>)
     ''secret''
     \<lparr>method = ''POST'', endpoint = ''/case/DEMO'', params = None,
      json_data = Some [(''title'', PStr ''Login'')]\<rparr> 0
   = (Inr (PDict [(''result'', PDict [(''id'', PInt 1)])]),
      [Sent (http_call_of ''secret''
         \<lparr>method = ''POST'', endpoint = ''/case/DEMO'', params = None,
          json_data = Some [(''title'', PStr ''Login'')]\<rparr>),
       Slept 2,
       Sent (http_call_of ''secret''
         \<lparr>method = ''POST'', endpoint = ''/case/DEMO'', params = None,
          json_data = Some [(''title'', PStr ''Login'')]\<rparr>)])"
  by (simp add: make_request.simps try_block_def headers_get_def int_of_str_def
      is_space_def is_digit_def in_numeral_def MAX_STR_DIGITS_def asyncio_sleep_def
      FLOAT_OVERFLOW_def MAX_RETRIES_def raise_for_status_def response_json_def)

subsection \<open>Claims about the dispatcher\<close>

text \<open>
  C3. With no credential configured (\<^verbatim>\<open>QASE_API_TOKEN\<close> empty), every request, whatever
  its method, path, parameters, body and retry count, is answered at once with the
  configuration failure, and no network call is placed: the list of events is empty.
  The message of the source reads "QASE_API_TOKEN environment variable is not set".
\<close>

theorem no_credential_no_call:
  "make_request net [] req retries =
     (Inr (Failure ''QASE_API_TOKEN environment variable is not set''), [])"
  by (simp add: make_request.simps)

text \<open>
  C4. When the credential is set and the call is answered with a status from 200 to 299,
  the value returned is the parsed JSON body itself; when the body does not parse, the
  parser's exception is caught and a failure carrying its message is returned. Either
  way exactly one call was placed.
\<close>

theorem success_payload_roundtrip:
  assumes "token \<noteq> []" and "net 0 = Response r"
    and "200 \<le> status_code r" and "status_code r \<le> 299"
  shows "make_request net token req retries =
     (Inr (case resp_json r of
             Inr v \<Rightarrow> v
           | Inl m \<Rightarrow> Failure (''Unexpected error: '' @ m)),
      [Sent (http_call_of token req)])"
proof (cases "resp_json r")
  case (Inl m)
  with assms have "try_block (net 0) retries = Inl (OtherException m)"
    by (simp add: try_block_success)
  with assms(1) Inl show ?thesis by (simp add: make_request_raise)
next
  case (Inr v)
  with assms have "try_block (net 0) retries = Inr (Return v)"
    by (simp add: try_block_success)
  with assms(1) Inr show ?thesis by (simp add: make_request_return)
qed

theorem success_payload_roundtrip_witness:
  "make_request
     (\<lambda>n. Response \<lparr>status_code = 200, headers = Map.empty, resp_text = ''ok'',
                     resp_json = Inr (PDict [(''result'', PDict [(''id'', PInt 1)])])\<rparr>)
     ''secret''
     \<lparr>method = ''POST'', endpoint = ''/case/DEMO'', params = None,
      json_data = Some [(''title'', PStr ''Login'')]\<rparr> 0
   = (Inr (PDict [(''result'', PDict [(''id'', PInt 1)])]),
      [Sent (http_call_of ''secret''
         \<lparr>method = ''POST'', endpoint = ''/case/DEMO'', params = None,
          json_data = Some [(''title'', PStr ''Login'')]\<rparr>)])"
  using success_payload_roundtrip
    [where token = "''secret''" and retries = 0
       and r = "\<lparr>status_code = 200, headers = Map.empty, resp_text = ''ok'',
                 resp_json = Inr (PDict [(''result'', PDict [(''id'', PInt 1)])])\<rparr>"
       and net = "\<lambda>n. Response \<lparr>status_code = 200, headers = Map.empty, resp_text = ''ok'',
                 resp_json = Inr (PDict [(''result'', PDict [(''id'', PInt 1)])])\<rparr>"
       and req = "\<lparr>method = ''POST'', endpoint = ''/case/DEMO'', params = None,
                   json_data = Some [(''title'', PStr ''Login'')]\<rparr>"]
  by simp

text \<open>
  C5. When the credential is set and the call is answered with a status that is neither
  429 nor in 200 to 299, the failure returned carries the status code and the text of
  the response, and exactly one call was placed: no wait, no second attempt.
\<close>

theorem http_error_single_attempt:
  assumes "token \<noteq> []" and "net 0 = Response r"
    and "status_code r \<noteq> 429" and "\<not> (200 \<le> status_code r \<and> status_code r \<le> 299)"
  shows "make_request net token req retries =
     (Inr (Failure (''HTTP error: '' @ str_int (status_code r) @ '' - '' @ resp_text r)),
      [Sent (http_call_of token req)])"
proof -
  from assms have "try_block (net 0) retries = Inl (HTTPStatusError r)"
    by (simp add: try_block_status_error)
  with assms(1) show ?thesis by (simp add: make_request_raise)
qed

theorem http_error_single_attempt_witness:
  "make_request
     (\<lambda>n. Response \<lparr>status_code = 404, headers = Map.empty, resp_text = ''Not Found'',
                     resp_json = Inl ''Expecting value''\<rparr>)
     ''secret''
     \<lparr>method = ''GET'', endpoint = ''/project/NOPE'', params = None, json_data = None\<rparr> 0
   = (Inr (Failure ''HTTP error: 404 - Not Found''),
      [Sent (http_call_of ''secret''
         \<lparr>method = ''GET'', endpoint = ''/project/NOPE'', params = None,
          json_data = None\<rparr>)])"
  using http_error_single_attempt
    [where token = "''secret''" and retries = 0
       and r = "\<lparr>status_code = 404, headers = Map.empty, resp_text = ''Not Found'',
                 resp_json = Inl ''Expecting value''\<rparr>"
       and net = "\<lambda>n. Response \<lparr>status_code = 404, headers = Map.empty,
                 resp_text = ''Not Found'', resp_json = Inl ''Expecting value''\<rparr>"
       and req = "\<lparr>method = ''GET'', endpoint = ''/project/NOPE'', params = None,
                   json_data = None\<rparr>"]
  by (simp add: str_int_def str_nat.simps digit_char_def)

text \<open>
  C6. When the credential is set and the call fails in transport (\<^verbatim>\<open>httpx.RequestError\<close>:
  connection refused, name resolution, timeout), the failure returned carries the text
  of the error, and exactly one call was placed.
\<close>

theorem transport_error_single_attempt:
  assumes "token \<noteq> []" and "net 0 = Raises (RequestError m)"
  shows "make_request net token req retries =
     (Inr (Failure (''Request error: '' @ m)), [Sent (http_call_of token req)])"
proof -
  from assms have "try_block (net 0) retries = Inl (RequestError m)"
    by (simp add: try_block_def)
  with assms(1) show ?thesis by (simp add: make_request_raise)
qed

theorem transport_error_single_attempt_witness:
  "make_request (\<lambda>n. Raises (RequestError ''Connection refused'')) ''secret''
     \<lparr>method = ''GET'', endpoint = ''/project'', params = None, json_data = None\<rparr> 0
   = (Inr (Failure ''Request error: Connection refused''),
      [Sent (http_call_of ''secret''
         \<lparr>method = ''GET'', endpoint = ''/project'', params = None, json_data = None\<rparr>)])"
  using transport_error_single_attempt
    [where token = "''secret''" and retries = 0 and m = "''Connection refused''"
       and net = "\<lambda>n. Raises (RequestError ''Connection refused'')"
       and req = "\<lparr>method = ''GET'', endpoint = ''/project'', params = None,
                   json_data = None\<rparr>"]
  by simp

text \<open>
  C1. Met with 429 responses only, the call is to wait and try again until \<open>MAX_RETRIES\<close>
  further attempts are spent, and then to return the rate-limit failure. The source does
  so when every \<^verbatim>\<open>Retry-After\<close> is absent or an integer that a wait accepts (lemma
  \<open>rate_limit_exhausted\<close>). It does not when a header is there and is no such integer.
  Below, the first response says \<^verbatim>\<open>Retry-After: 2\<close> and the later ones give an HTTP
  date: \<^verbatim>\<open>int\<close> raises on the second attempt, and the call ends after two sends with the
  failure of the last \<^verbatim>\<open>except\<close> clause, having spent one retry of its three.
\<close>

lemma rate_limit_exhausted:
  assumes tok: "token \<noteq> []"
    and only429: "\<forall>n. net n = Response (r n) \<and> status_code (r n) = 429"
    and waits: "\<forall>n<3. case headers (r n) ''Retry-After'' of
                     None \<Rightarrow> d n = 60
                   | Some s \<Rightarrow> int_of_str s = Inr (d n) \<and> d n < FLOAT_OVERFLOW"
  shows "make_request net token req 0 =
     (Inr (Failure ''Rate limit exceeded after maximum retries''),
      [Sent (http_call_of token req), Slept (d 0),
       Sent (http_call_of token req), Slept (d 1),
       Sent (http_call_of token req), Slept (d 2),
       Sent (http_call_of token req)])"
proof -
  let ?c = "http_call_of token req"
  let ?limit = "Inr (Failure ''Rate limit exceeded after maximum retries'')"
  have retry: "try_block (net n) k = Inr (Retry (d n))" if "n < 3" "k < 3" for n k
    using that only429 waits
    by (auto simp: try_block_429_retry MAX_RETRIES_def RETRY_DELAY_def split: option.splits)
  have last: "try_block (net 3) 3 =
      Inr (Return (Failure ''Rate limit exceeded after maximum retries''))"
    using only429 by (simp add: try_block_429_exhausted MAX_RETRIES_def)
  have s3: "make_request (\<lambda>n. net (Suc (Suc (Suc n)))) token req 3 = (?limit, [Sent ?c])"
    using tok last by (simp add: make_request_return numeral_3_eq_3)
  have s2: "make_request (\<lambda>n. net (Suc (Suc n))) token req 2 =
      (?limit, [Sent ?c, Slept (d 2), Sent ?c])"
    using make_request_retry[where net = "\<lambda>n. net (Suc (Suc n))" and req = req
        and retries = 2 and d = "d 2", OF tok] retry[of 2 2] s3
    by (simp add: numeral_2_eq_2)
  have s1: "make_request (\<lambda>n. net (Suc n)) token req 1 =
      (?limit, [Sent ?c, Slept (d 1), Sent ?c, Slept (d 2), Sent ?c])"
    using make_request_retry[where net = "\<lambda>n. net (Suc n)" and req = req
        and retries = 1 and d = "d 1", OF tok] retry[of 1 1] s2
    by simp
  show ?thesis
    using make_request_retry[where net = net and req = req
        and retries = 0 and d = "d 0", OF tok] retry[of 0 0] s1
    by simp
qed

theorem only_429_with_http_date_stops_early:
  "make_request date_after_first ''secret'' get_projects 0 =
     (Inr (Failure (''Unexpected error: invalid literal for int() with base 10: ''
                    @ [CHR 0x27] @ ''Fri, 31 Dec 1999 23:59:59 GMT'' @ [CHR 0x27])),
      [Sent (http_call_of ''secret'' get_projects), Slept 2,
       Sent (http_call_of ''secret'' get_projects)])"
  by (simp add: make_request.simps date_after_first_def too_many_requests_def try_block_def
      headers_get_def int_of_str_def is_space_def is_digit_def in_numeral_def
      invalid_literal_def py_repr_def printable_def MAX_STR_DIGITS_def asyncio_sleep_def
      FLOAT_OVERFLOW_def MAX_RETRIES_def Let_def)

text \<open>
  C2. The 429 branch reads \<^verbatim>\<open>int(response.headers.get("Retry-After", RETRY_DELAY))\<close>
  inside the \<^verbatim>\<open>try\<close> block. The default covers the absent header only. A header that is
  present and not an integer, here the HTTP-date form, makes \<^verbatim>\<open>int\<close> raise; the last
  \<^verbatim>\<open>except\<close> clause turns that into a failure, and the call ends after its first attempt,
  with no wait and no retry.
\<close>

theorem retry_after_http_date_gives_up:
  "make_request
     (\<lambda>n. Response \<lparr>status_code = 429,
                     headers = [''Retry-After'' \<mapsto> ''Wed, 21 Oct 2015 07:28:00 GMT''],
                     resp_text = ''Too Many Requests'', resp_json = Inl ''Expecting value''\<rparr>)
     ''secret''
     \<lparr>method = ''GET'', endpoint = ''/project'', params = None, json_data = None\<rparr> 0
   = (Inr (Failure (''Unexpected error: invalid literal for int() with base 10: ''
                    @ [CHR 0x27] @ ''Wed, 21 Oct 2015 07:28:00 GMT'' @ [CHR 0x27])),
      [Sent \<lparr>call_method = ''GET'', call_url = ''https://api.qase.io/v1/project'',
             call_headers = [(''Token'', ''secret''), (''Content-Type'', ''application/json'')],
             call_params = None, call_json = None, call_timeout = 30\<rparr>])"
  by (simp add: make_request.simps try_block_def headers_get_def int_of_str_def
      is_space_def is_digit_def in_numeral_def invalid_literal_def py_repr_def printable_def
      MAX_STR_DIGITS_def MAX_RETRIES_def http_call_of_def QASE_API_BASE_URL_def Let_def)

subsection \<open>What escapes and what does not\<close>







section \<open>Properties of the tools\<close>

lemma map_of_setitem: "map_of (setitem d k v) = (map_of d)(k \<mapsto> v)"
  by (induction d) auto

lemma map_of_if_truthy:
  "map_of (if_truthy k x d) k' = (if k' = k \<and> truthy x then Some x else map_of d k')"
  by (simp add: if_truthy_def map_of_setitem)

lemma map_of_if_not_none:
  "map_of (if_not_none k x d) k' = (if k' = k \<and> x \<noteq> PNone then Some x else map_of d k')"
  by (simp add: if_not_none_def map_of_setitem)

lemma if_truthy_falsy: "\<not> truthy x \<Longrightarrow> if_truthy k x = (\<lambda>d. d)"
  by (rule ext) (simp add: if_truthy_def)

lemmas sent_simps =
  sent_def map_of_if_truthy map_of_if_not_none opt_def or_default_def
  strs_def ints_def dicts_def str_dicts_def

lemmas guarded_tool_defs =
  qase_list_test_cases_def qase_create_test_case_def qase_update_test_case_def
  qase_list_suites_def qase_create_suite_def qase_update_suite_def qase_list_shared_steps_def
  qase_update_shared_step_def qase_update_shared_parameter_def qase_create_custom_field_def
  qase_update_custom_field_def qase_create_test_plan_def qase_update_test_plan_def
  qase_list_test_runs_def qase_get_test_run_def qase_create_test_run_def
  qase_create_test_result_def qase_list_defects_def qase_create_defect_def
  qase_create_milestone_def

text \<open>
  C9, counterexample. An optional argument whose declared default is not \<open>None\<close> is
  sent with that default when the caller leaves it out: it is not absent from the
  request. Listing projects with no argument sends \<^verbatim>\<open>limit=100\<close>, and creating a test
  case from a project code and a title alone sends an empty description.
\<close>

theorem unset_default_argument_sent:
  "sent (qase_list_projects None None) ''limit'' = Some (PInt 100) \<and>
   sent (qase_create_test_case ''DEMO'' ''Login'' None None None None None None None None
           None None None None None) ''description'' = Some (PStr '''')"
  by (simp add: qase_list_projects_def qase_create_test_case_def sent_simps)

text \<open>
  C9, as amended. In every tool, an optional argument whose declared default is \<open>None\<close>
  and which is left at \<open>None\<close> puts no field into the outgoing query parameters or JSON
  body, whatever the other arguments are: its key is absent, not present with a null.
  The twenty tools below are all the tools with such an argument. A filter argument that
  is sent travels under its bracketed key, \<^verbatim>\<open>filters[priority]\<close> and the like; a filter
  is sent when it is a non-empty string or a non-zero integer.
\<close>

theorem unset_none_arguments_absent:
  "(\<forall>project_code limit offset filters_priority filters_type filters_severity
      filters_automation filters_suite_id filters_search.
      sent (qase_list_test_cases project_code limit offset None filters_type filters_severity
         filters_automation filters_suite_id filters_search)
         ''filters[priority]'' = None \<and>
      sent (qase_list_test_cases project_code limit offset filters_priority None filters_severity
         filters_automation filters_suite_id filters_search)
         ''filters[type]'' = None \<and>
      sent (qase_list_test_cases project_code limit offset filters_priority filters_type None
         filters_automation filters_suite_id filters_search)
         ''filters[severity]'' = None \<and>
      sent (qase_list_test_cases project_code limit offset filters_priority filters_type
         filters_severity None filters_suite_id filters_search)
         ''filters[automation]'' = None \<and>
      sent (qase_list_test_cases project_code limit offset filters_priority filters_type
         filters_severity filters_automation None filters_search)
         ''filters[suite_id]'' = None \<and>
      sent (qase_list_test_cases project_code limit offset filters_priority filters_type
         filters_severity filters_automation filters_suite_id None)
         ''filters[search]'' = None) \<and>
   (\<forall>project_code title description preconditions postconditions severity priority type_id
      behavior automation suite_id milestone_id tags steps custom_fields.
      sent (qase_create_test_case project_code title description preconditions postconditions
         severity priority type_id behavior automation None milestone_id tags steps
         custom_fields)
         ''suite_id'' = None \<and>
      sent (qase_create_test_case project_code title description preconditions postconditions
         severity priority type_id behavior automation suite_id None tags steps custom_fields)
         ''milestone_id'' = None \<and>
      sent (qase_create_test_case project_code title description preconditions postconditions
         severity priority type_id behavior automation suite_id milestone_id None steps
         custom_fields)
         ''tags'' = None \<and>
      sent (qase_create_test_case project_code title description preconditions postconditions
         severity priority type_id behavior automation suite_id milestone_id tags None
         custom_fields)
         ''steps'' = None \<and>
      sent (qase_create_test_case project_code title description preconditions postconditions
         severity priority type_id behavior automation suite_id milestone_id tags steps None)
         ''custom_fields'' = None) \<and>
   (\<forall>project_code case_id title description preconditions postconditions severity priority
      type_id behavior automation suite_id milestone_id tags steps custom_fields.
      sent (qase_update_test_case project_code case_id None description preconditions
         postconditions severity priority type_id behavior automation suite_id milestone_id
         tags steps custom_fields)
         ''title'' = None \<and>
      sent (qase_update_test_case project_code case_id title None preconditions postconditions
         severity priority type_id behavior automation suite_id milestone_id tags steps
         custom_fields)
         ''description'' = None \<and>
      sent (qase_update_test_case project_code case_id title description None postconditions
         severity priority type_id behavior automation suite_id milestone_id tags steps
         custom_fields)
         ''preconditions'' = None \<and>
      sent (qase_update_test_case project_code case_id title description preconditions None
         severity priority type_id behavior automation suite_id milestone_id tags steps
         custom_fields)
         ''postconditions'' = None \<and>
      sent (qase_update_test_case project_code case_id title description preconditions
         postconditions None priority type_id behavior automation suite_id milestone_id tags
         steps custom_fields)
         ''severity'' = None \<and>
      sent (qase_update_test_case project_code case_id title description preconditions
         postconditions severity None type_id behavior automation suite_id milestone_id tags
         steps custom_fields)
         ''priority'' = None \<and>
      sent (qase_update_test_case project_code case_id title description preconditions
         postconditions severity priority None behavior automation suite_id milestone_id tags
         steps custom_fields)
         ''type'' = None \<and>
      sent (qase_update_test_case project_code case_id title description preconditions
         postconditions severity priority type_id None automation suite_id milestone_id tags
         steps custom_fields)
         ''behavior'' = None \<and>
      sent (qase_update_test_case project_code case_id title description preconditions
         postconditions severity priority type_id behavior None suite_id milestone_id tags
         steps custom_fields)
         ''automation'' = None \<and>
      sent (qase_update_test_case project_code case_id title description preconditions
         postconditions severity priority type_id behavior automation None milestone_id tags
         steps custom_fields)
         ''suite_id'' = None \<and>
      sent (qase_update_test_case project_code case_id title description preconditions
         postconditions severity priority type_id behavior automation suite_id None tags steps
         custom_fields)
         ''milestone_id'' = None \<and>
      sent (qase_update_test_case project_code case_id title description preconditions
         postconditions severity priority type_id behavior automation suite_id milestone_id
         None steps custom_fields)
         ''tags'' = None \<and>
      sent (qase_update_test_case project_code case_id title description preconditions
         postconditions severity priority type_id behavior automation suite_id milestone_id
         tags None custom_fields)
         ''steps'' = None \<and>
      sent (qase_update_test_case project_code case_id title description preconditions
         postconditions severity priority type_id behavior automation suite_id milestone_id
         tags steps None)
         ''custom_fields'' = None) \<and>
   (\<forall>project_code limit offset search.
      sent (qase_list_suites project_code limit offset None)
         ''filters[search]'' = None) \<and>
   (\<forall>project_code title description preconditions parent_id.
      sent (qase_create_suite project_code title description preconditions None)
         ''parent_id'' = None) \<and>
   (\<forall>project_code suite_id title description preconditions parent_id.
      sent (qase_update_suite project_code suite_id None description preconditions parent_id)
         ''title'' = None \<and>
      sent (qase_update_suite project_code suite_id title None preconditions parent_id)
         ''description'' = None \<and>
      sent (qase_update_suite project_code suite_id title description None parent_id)
         ''preconditions'' = None \<and>
      sent (qase_update_suite project_code suite_id title description preconditions None)
         ''parent_id'' = None) \<and>
   (\<forall>project_code limit offset search.
      sent (qase_list_shared_steps project_code limit offset None)
         ''filters[search]'' = None) \<and>
   (\<forall>project_code shared_step_hash title action expected_result data.
      sent (qase_update_shared_step project_code shared_step_hash None action expected_result
         data)
         ''title'' = None \<and>
      sent (qase_update_shared_step project_code shared_step_hash title None expected_result data)
         ''action'' = None \<and>
      sent (qase_update_shared_step project_code shared_step_hash title action None data)
         ''expected_result'' = None \<and>
      sent (qase_update_shared_step project_code shared_step_hash title action expected_result
         None)
         ''data'' = None) \<and>
   (\<forall>project_code parameter_id title values.
      sent (qase_update_shared_parameter project_code parameter_id None values)
         ''title'' = None \<and>
      sent (qase_update_shared_parameter project_code parameter_id title None)
         ''values'' = None) \<and>
   (\<forall>project_code title entity field_type placeholder default_value is_filterable is_visible
      is_required value.
      sent (qase_create_custom_field project_code title entity field_type placeholder
         default_value is_filterable is_visible is_required None)
         ''value'' = None) \<and>
   (\<forall>project_code field_id title placeholder default_value is_filterable is_visible
      is_required value.
      sent (qase_update_custom_field project_code field_id None placeholder default_value
         is_filterable is_visible is_required value)
         ''title'' = None \<and>
      sent (qase_update_custom_field project_code field_id title None default_value is_filterable
         is_visible is_required value)
         ''placeholder'' = None \<and>
      sent (qase_update_custom_field project_code field_id title placeholder None is_filterable
         is_visible is_required value)
         ''default_value'' = None \<and>
      sent (qase_update_custom_field project_code field_id title placeholder default_value None
         is_visible is_required value)
         ''is_filterable'' = None \<and>
      sent (qase_update_custom_field project_code field_id title placeholder default_value
         is_filterable None is_required value)
         ''is_visible'' = None \<and>
      sent (qase_update_custom_field project_code field_id title placeholder default_value
         is_filterable is_visible None value)
         ''is_required'' = None \<and>
      sent (qase_update_custom_field project_code field_id title placeholder default_value
         is_filterable is_visible is_required None)
         ''value'' = None) \<and>
   (\<forall>project_code title description cases.
      sent (qase_create_test_plan project_code title description None)
         ''cases'' = None) \<and>
   (\<forall>project_code plan_id title description cases.
      sent (qase_update_test_plan project_code plan_id None description cases)
         ''title'' = None \<and>
      sent (qase_update_test_plan project_code plan_id title None cases)
         ''description'' = None \<and>
      sent (qase_update_test_plan project_code plan_id title description None)
         ''cases'' = None) \<and>
   (\<forall>project_code limit offset include.
      sent (qase_list_test_runs project_code limit offset None)
         ''include'' = None) \<and>
   (\<forall>project_code run_id include.
      sent (qase_get_test_run project_code run_id None)
         ''include'' = None) \<and>
   (\<forall>project_code title description cases plan_id environment_id milestone_id is_autotest.
      sent (qase_create_test_run project_code title description None plan_id environment_id
         milestone_id is_autotest)
         ''cases'' = None \<and>
      sent (qase_create_test_run project_code title description cases None environment_id
         milestone_id is_autotest)
         ''plan_id'' = None \<and>
      sent (qase_create_test_run project_code title description cases plan_id None milestone_id
         is_autotest)
         ''environment_id'' = None \<and>
      sent (qase_create_test_run project_code title description cases plan_id environment_id None
         is_autotest)
         ''milestone_id'' = None) \<and>
   (\<forall>project_code run_id case_id status time_ms comment defect member_id steps attachments.
      sent (qase_create_test_result project_code run_id case_id status None comment defect
         member_id steps attachments)
         ''time_ms'' = None \<and>
      sent (qase_create_test_result project_code run_id case_id status time_ms comment defect
         None steps attachments)
         ''member_id'' = None \<and>
      sent (qase_create_test_result project_code run_id case_id status time_ms comment defect
         member_id None attachments)
         ''steps'' = None \<and>
      sent (qase_create_test_result project_code run_id case_id status time_ms comment defect
         member_id steps None)
         ''attachments'' = None) \<and>
   (\<forall>project_code limit offset filters_status.
      sent (qase_list_defects project_code limit offset None)
         ''filters[status]'' = None) \<and>
   (\<forall>project_code title actual_result severity member_id milestone_id attachments.
      sent (qase_create_defect project_code title actual_result severity None milestone_id
         attachments)
         ''member_id'' = None \<and>
      sent (qase_create_defect project_code title actual_result severity member_id None
         attachments)
         ''milestone_id'' = None \<and>
      sent (qase_create_defect project_code title actual_result severity member_id milestone_id
         None)
         ''attachments'' = None) \<and>
   (\<forall>project_code title description status due_date.
      sent (qase_create_milestone project_code title description status None)
         ''due_date'' = None) \<and>
   (\<forall>project_code limit offset filters_priority filters_type filters_severity
      filters_automation filters_suite_id filters_search c cs i.
      sent (qase_list_test_cases project_code limit offset (Some (c # cs)) filters_type
         filters_severity filters_automation filters_suite_id filters_search)
         ''filters[priority]'' = Some (PStr (c # cs)) \<and>
      sent (qase_list_test_cases project_code limit offset filters_priority (Some (c # cs))
         filters_severity filters_automation filters_suite_id filters_search)
         ''filters[type]'' = Some (PStr (c # cs)) \<and>
      sent (qase_list_test_cases project_code limit offset filters_priority filters_type
         (Some (c # cs)) filters_automation filters_suite_id filters_search)
         ''filters[severity]'' = Some (PStr (c # cs)) \<and>
      sent (qase_list_test_cases project_code limit offset filters_priority filters_type
         filters_severity (Some (c # cs)) filters_suite_id filters_search)
         ''filters[automation]'' = Some (PStr (c # cs)) \<and>
      sent (qase_list_test_cases project_code limit offset filters_priority filters_type
         filters_severity filters_automation (Some i) filters_search)
         ''filters[suite_id]'' = (if i = 0 then None else Some (PInt i)) \<and>
      sent (qase_list_test_cases project_code limit offset filters_priority filters_type
         filters_severity filters_automation filters_suite_id (Some (c # cs)))
         ''filters[search]'' = Some (PStr (c # cs))) \<and>
   (\<forall>project_code limit offset search c cs.
      sent (qase_list_suites project_code limit offset (Some (c # cs)))
         ''filters[search]'' = Some (PStr (c # cs))) \<and>
   (\<forall>project_code limit offset search c cs.
      sent (qase_list_shared_steps project_code limit offset (Some (c # cs)))
         ''filters[search]'' = Some (PStr (c # cs))) \<and>
   (\<forall>project_code limit offset filters_status c cs.
      sent (qase_list_defects project_code limit offset (Some (c # cs)))
         ''filters[status]'' = Some (PStr (c # cs)))"
  by (intro conjI allI) (simp_all add: guarded_tool_defs sent_simps)

text \<open>
  C10. An argument guarded by \<^verbatim>\<open>if x:\<close> is dropped when the caller gives it a falsy value:
  the request is the very request built when the argument is left out. So
  \<^verbatim>\<open>filters_suite_id=0\<close> and \<^verbatim>\<open>filters_search=""\<close> in \<open>qase_list_test_cases\<close> and
  \<^verbatim>\<open>cases=[]\<close> in \<open>qase_create_test_plan\<close> send nothing. An argument guarded by
  \<^verbatim>\<open>if x is not None:\<close> is sent with its falsy value, as \<^verbatim>\<open>suite_id=0\<close> in
  \<open>qase_create_test_case\<close>. The statement runs over every guarded argument of every tool,
  with 0, the empty string, \<open>False\<close> and the empty list as the falsy values.
\<close>

theorem falsy_arguments_dropped:
  "(\<forall>project_code limit offset filters_priority filters_type filters_severity
      filters_automation filters_suite_id filters_search.
      qase_list_test_cases project_code limit offset (Some '''') filters_type filters_severity
         filters_automation filters_suite_id filters_search =
         qase_list_test_cases project_code limit offset None filters_type filters_severity
            filters_automation filters_suite_id filters_search \<and>
      qase_list_test_cases project_code limit offset filters_priority (Some '''')
         filters_severity filters_automation filters_suite_id filters_search =
         qase_list_test_cases project_code limit offset filters_priority None filters_severity
            filters_automation filters_suite_id filters_search \<and>
      qase_list_test_cases project_code limit offset filters_priority filters_type (Some '''')
         filters_automation filters_suite_id filters_search =
         qase_list_test_cases project_code limit offset filters_priority filters_type None
            filters_automation filters_suite_id filters_search \<and>
      qase_list_test_cases project_code limit offset filters_priority filters_type
         filters_severity (Some '''') filters_suite_id filters_search =
         qase_list_test_cases project_code limit offset filters_priority filters_type
            filters_severity None filters_suite_id filters_search \<and>
      qase_list_test_cases project_code limit offset filters_priority filters_type
         filters_severity filters_automation (Some 0) filters_search =
         qase_list_test_cases project_code limit offset filters_priority filters_type
            filters_severity filters_automation None filters_search \<and>
      qase_list_test_cases project_code limit offset filters_priority filters_type
         filters_severity filters_automation filters_suite_id (Some '''') =
         qase_list_test_cases project_code limit offset filters_priority filters_type
            filters_severity filters_automation filters_suite_id None) \<and>
   (\<forall>project_code title description preconditions postconditions severity priority type_id
      behavior automation suite_id milestone_id tags steps custom_fields.
      sent (qase_create_test_case project_code title description preconditions postconditions
          severity priority type_id behavior automation (Some 0) milestone_id tags steps
          custom_fields)
          ''suite_id'' = Some (PInt 0) \<and>
      sent (qase_create_test_case project_code title description preconditions postconditions
          severity priority type_id behavior automation suite_id (Some 0) tags steps
          custom_fields)
          ''milestone_id'' = Some (PInt 0) \<and>
      qase_create_test_case project_code title description preconditions postconditions
         severity priority type_id behavior automation suite_id milestone_id (Some []) steps
         custom_fields =
         qase_create_test_case project_code title description preconditions postconditions
            severity priority type_id behavior automation suite_id milestone_id None steps
            custom_fields \<and>
      qase_create_test_case project_code title description preconditions postconditions
         severity priority type_id behavior automation suite_id milestone_id tags (Some [])
         custom_fields =
         qase_create_test_case project_code title description preconditions postconditions
            severity priority type_id behavior automation suite_id milestone_id tags None
            custom_fields \<and>
      qase_create_test_case project_code title description preconditions postconditions
         severity priority type_id behavior automation suite_id milestone_id tags steps (Some []) =
         qase_create_test_case project_code title description preconditions postconditions
            severity priority type_id behavior automation suite_id milestone_id tags steps None) \<and>
   (\<forall>project_code case_id title description preconditions postconditions severity priority
      type_id behavior automation suite_id milestone_id tags steps custom_fields.
      sent (qase_update_test_case project_code case_id (Some '''') description preconditions
          postconditions severity priority type_id behavior automation suite_id milestone_id tags
          steps custom_fields)
          ''title'' = Some (PStr '''') \<and>
      sent (qase_update_test_case project_code case_id title (Some '''') preconditions
          postconditions severity priority type_id behavior automation suite_id milestone_id tags
          steps custom_fields)
          ''description'' = Some (PStr '''') \<and>
      sent (qase_update_test_case project_code case_id title description (Some '''') postconditions
          severity priority type_id behavior automation suite_id milestone_id tags steps
          custom_fields)
          ''preconditions'' = Some (PStr '''') \<and>
      sent (qase_update_test_case project_code case_id title description preconditions (Some '''')
          severity priority type_id behavior automation suite_id milestone_id tags steps
          custom_fields)
          ''postconditions'' = Some (PStr '''') \<and>
      sent (qase_update_test_case project_code case_id title description preconditions
          postconditions (Some 0) priority type_id behavior automation suite_id milestone_id tags
          steps custom_fields)
          ''severity'' = Some (PInt 0) \<and>
      sent (qase_update_test_case project_code case_id title description preconditions
          postconditions severity (Some 0) type_id behavior automation suite_id milestone_id tags
          steps custom_fields)
          ''priority'' = Some (PInt 0) \<and>
      sent (qase_update_test_case project_code case_id title description preconditions
          postconditions severity priority (Some 0) behavior automation suite_id milestone_id
          tags steps custom_fields)
          ''type'' = Some (PInt 0) \<and>
      sent (qase_update_test_case project_code case_id title description preconditions
          postconditions severity priority type_id (Some 0) automation suite_id milestone_id tags
          steps custom_fields)
          ''behavior'' = Some (PInt 0) \<and>
      sent (qase_update_test_case project_code case_id title description preconditions
          postconditions severity priority type_id behavior (Some '''') suite_id milestone_id
          tags steps custom_fields)
          ''automation'' = Some (PStr '''') \<and>
      sent (qase_update_test_case project_code case_id title description preconditions
          postconditions severity priority type_id behavior automation (Some 0) milestone_id tags
          steps custom_fields)
          ''suite_id'' = Some (PInt 0) \<and>
      sent (qase_update_test_case project_code case_id title description preconditions
          postconditions severity priority type_id behavior automation suite_id (Some 0) tags
          steps custom_fields)
          ''milestone_id'' = Some (PInt 0) \<and>
      sent (qase_update_test_case project_code case_id title description preconditions
          postconditions severity priority type_id behavior automation suite_id milestone_id
          (Some []) steps custom_fields)
          ''tags'' = Some (PList []) \<and>
      sent (qase_update_test_case project_code case_id title description preconditions
          postconditions severity priority type_id behavior automation suite_id milestone_id tags
          (Some []) custom_fields)
          ''steps'' = Some (PList []) \<and>
      sent (qase_update_test_case project_code case_id title description preconditions
          postconditions severity priority type_id behavior automation suite_id milestone_id tags
          steps (Some []))
          ''custom_fields'' = Some (PList [])) \<and>
   (\<forall>project_code limit offset search.
      qase_list_suites project_code limit offset (Some '''') =
         qase_list_suites project_code limit offset None) \<and>
   (\<forall>project_code title description preconditions parent_id.
      sent (qase_create_suite project_code title description preconditions (Some 0))
          ''parent_id'' = Some (PInt 0)) \<and>
   (\<forall>project_code suite_id title description preconditions parent_id.
      sent (qase_update_suite project_code suite_id (Some '''') description preconditions parent_id)
          ''title'' = Some (PStr '''') \<and>
      sent (qase_update_suite project_code suite_id title (Some '''') preconditions parent_id)
          ''description'' = Some (PStr '''') \<and>
      sent (qase_update_suite project_code suite_id title description (Some '''') parent_id)
          ''preconditions'' = Some (PStr '''') \<and>
      sent (qase_update_suite project_code suite_id title description preconditions (Some 0))
          ''parent_id'' = Some (PInt 0)) \<and>
   (\<forall>project_code limit offset search.
      qase_list_shared_steps project_code limit offset (Some '''') =
         qase_list_shared_steps project_code limit offset None) \<and>
   (\<forall>project_code shared_step_hash title action expected_result data.
      sent (qase_update_shared_step project_code shared_step_hash (Some '''') action
          expected_result data)
          ''title'' = Some (PStr '''') \<and>
      sent (qase_update_shared_step project_code shared_step_hash title (Some '''') expected_result
          data)
          ''action'' = Some (PStr '''') \<and>
      sent (qase_update_shared_step project_code shared_step_hash title action (Some '''') data)
          ''expected_result'' = Some (PStr '''') \<and>
      sent (qase_update_shared_step project_code shared_step_hash title action expected_result
          (Some ''''))
          ''data'' = Some (PStr '''')) \<and>
   (\<forall>project_code parameter_id title values.
      sent (qase_update_shared_parameter project_code parameter_id (Some '''') values)
          ''title'' = Some (PStr '''') \<and>
      sent (qase_update_shared_parameter project_code parameter_id title (Some []))
          ''values'' = Some (PList [])) \<and>
   (\<forall>project_code title entity field_type placeholder default_value is_filterable is_visible
      is_required value.
      sent (qase_create_custom_field project_code title entity field_type placeholder default_value
          is_filterable is_visible is_required (Some []))
          ''value'' = Some (PList [])) \<and>
   (\<forall>project_code field_id title placeholder default_value is_filterable is_visible
      is_required value.
      sent (qase_update_custom_field project_code field_id (Some '''') placeholder default_value
          is_filterable is_visible is_required value)
          ''title'' = Some (PStr '''') \<and>
      sent (qase_update_custom_field project_code field_id title (Some '''') default_value
          is_filterable is_visible is_required value)
          ''placeholder'' = Some (PStr '''') \<and>
      sent (qase_update_custom_field project_code field_id title placeholder (Some '''')
          is_filterable is_visible is_required value)
          ''default_value'' = Some (PStr '''') \<and>
      sent (qase_update_custom_field project_code field_id title placeholder default_value
          (Some False) is_visible is_required value)
          ''is_filterable'' = Some (PBool False) \<and>
      sent (qase_update_custom_field project_code field_id title placeholder default_value
          is_filterable (Some False) is_required value)
          ''is_visible'' = Some (PBool False) \<and>
      sent (qase_update_custom_field project_code field_id title placeholder default_value
          is_filterable is_visible (Some False) value)
          ''is_required'' = Some (PBool False) \<and>
      sent (qase_update_custom_field project_code field_id title placeholder default_value
          is_filterable is_visible is_required (Some []))
          ''value'' = Some (PList [])) \<and>
   (\<forall>project_code title description cases.
      qase_create_test_plan project_code title description (Some []) =
         qase_create_test_plan project_code title description None) \<and>
   (\<forall>project_code plan_id title description cases.
      sent (qase_update_test_plan project_code plan_id (Some '''') description cases)
          ''title'' = Some (PStr '''') \<and>
      sent (qase_update_test_plan project_code plan_id title (Some '''') cases)
          ''description'' = Some (PStr '''') \<and>
      sent (qase_update_test_plan project_code plan_id title description (Some []))
          ''cases'' = Some (PList [])) \<and>
   (\<forall>project_code limit offset include.
      qase_list_test_runs project_code limit offset (Some '''') =
         qase_list_test_runs project_code limit offset None) \<and>
   (\<forall>project_code run_id include.
      qase_get_test_run project_code run_id (Some '''') =
         qase_get_test_run project_code run_id None) \<and>
   (\<forall>project_code title description cases plan_id environment_id milestone_id is_autotest.
      qase_create_test_run project_code title description (Some []) plan_id environment_id
         milestone_id is_autotest =
         qase_create_test_run project_code title description None plan_id environment_id
            milestone_id is_autotest \<and>
      sent (qase_create_test_run project_code title description cases (Some 0) environment_id
          milestone_id is_autotest)
          ''plan_id'' = Some (PInt 0) \<and>
      sent (qase_create_test_run project_code title description cases plan_id (Some 0) milestone_id
          is_autotest)
          ''environment_id'' = Some (PInt 0) \<and>
      sent (qase_create_test_run project_code title description cases plan_id environment_id
          (Some 0) is_autotest)
          ''milestone_id'' = Some (PInt 0)) \<and>
   (\<forall>project_code run_id case_id status time_ms comment defect member_id steps attachments.
      sent (qase_create_test_result project_code run_id case_id status (Some 0) comment defect
          member_id steps attachments)
          ''time_ms'' = Some (PInt 0) \<and>
      sent (qase_create_test_result project_code run_id case_id status time_ms comment defect
          (Some 0) steps attachments)
          ''member_id'' = Some (PInt 0) \<and>
      qase_create_test_result project_code run_id case_id status time_ms comment defect
         member_id (Some []) attachments =
         qase_create_test_result project_code run_id case_id status time_ms comment defect
            member_id None attachments \<and>
      qase_create_test_result project_code run_id case_id status time_ms comment defect
         member_id steps (Some []) =
         qase_create_test_result project_code run_id case_id status time_ms comment defect
            member_id steps None) \<and>
   (\<forall>project_code limit offset filters_status.
      qase_list_defects project_code limit offset (Some '''') =
         qase_list_defects project_code limit offset None) \<and>
   (\<forall>project_code title actual_result severity member_id milestone_id attachments.
      sent (qase_create_defect project_code title actual_result severity (Some 0) milestone_id
          attachments)
          ''member_id'' = Some (PInt 0) \<and>
      sent (qase_create_defect project_code title actual_result severity member_id (Some 0)
          attachments)
          ''milestone_id'' = Some (PInt 0) \<and>
      qase_create_defect project_code title actual_result severity member_id milestone_id
         (Some []) =
         qase_create_defect project_code title actual_result severity member_id milestone_id
            None) \<and>
   (\<forall>project_code title description status due_date.
      qase_create_milestone project_code title description status (Some '''') =
         qase_create_milestone project_code title description status None)"
  by (intro conjI allI) (simp_all add: guarded_tool_defs sent_simps if_truthy_falsy)

end
